theory Spec2Isabelle
  imports Main "HOL-Library.AList"
begin

section \<open>Python values, errors and list indexing\<close>

text \<open>
  The source is Python (\<^verbatim>\<open>fastf1/api.py\<close>).  Every exception the modelled code can
  raise is a value of \<open>py_error\<close>; a function that can raise returns
  \<open>py_error + 'a\<close>, with \<open>Inl\<close> for the exception.  An exception aborts the whole call,
  so no state is returned with it.
\<close>

datatype py_error = IndexError | KeyError | TypeError | ValueError | NameError
  | AttributeError | JSONDecodeError | DecodeError | MergeError

definition bindE :: "py_error + 'a \<Rightarrow> ('a \<Rightarrow> py_error + 'b) \<Rightarrow> py_error + 'b" where
  "bindE m f = (case m of Inl e \<Rightarrow> Inl e | Inr x \<Rightarrow> f x)"

text \<open>Python list indexing: a negative index counts from the end, out of range raises.\<close>

definition py_idx :: "nat \<Rightarrow> int \<Rightarrow> nat option" where
  "py_idx n i =
     (let j = (if i < 0 then int n + i else i)
      in if 0 \<le> j \<and> j < int n then Some (nat j) else None)"

definition py_get :: "'a list \<Rightarrow> int \<Rightarrow> py_error + 'a" where
  "py_get xs i = (case py_idx (length xs) i of None \<Rightarrow> Inl IndexError | Some k \<Rightarrow> Inr (xs ! k))"

definition py_set :: "'a list \<Rightarrow> int \<Rightarrow> 'a \<Rightarrow> py_error + 'a list" where
  "py_set xs i v =
     (case py_idx (length xs) i of None \<Rightarrow> Inl IndexError | Some k \<Rightarrow> Inr (xs[k := v]))"

text \<open>\<^verbatim>\<open>d[k]\<close> on a dictionary whose key may be missing.\<close>

definition key :: "'a option \<Rightarrow> py_error + 'a" where
  "key x = (case x of None \<Rightarrow> Inl KeyError | Some v \<Rightarrow> Inr v)"

text \<open>
  \<^verbatim>\<open>int(s)\<close> and \<^verbatim>\<open>str(n)\<close> on the keys of a sparse JSON array.  A character is a
  code point below 256.  \<^verbatim>\<open>int\<close> strips the white space around the text (the characters
  9 to 13, 32, 133 and 160), then reads an optional sign and decimal digits, between two of
  which one underscore may stand; \<open>py_int\<close> is \<open>None\<close> (Python: ValueError) on anything
  else.  \<open>digits_val\<close> carries whether the character before was a digit.
\<close>

definition digit_of :: "char \<Rightarrow> nat option" where
  "digit_of c = (if c \<in> set ''0123456789'' then Some (of_char c - 48) else None)"

definition py_space :: "char \<Rightarrow> bool" where
  "py_space c \<longleftrightarrow>
     c \<in> set [CHR 0x09, CHR 0x0A, CHR 0x0B, CHR 0x0C, CHR 0x0D, CHR 0x20, CHR 0x85, CHR 0xA0]"

definition py_strip :: "string \<Rightarrow> string" where
  "py_strip s = rev (dropWhile py_space (rev (dropWhile py_space s)))"

fun digits_val :: "bool \<Rightarrow> nat \<Rightarrow> string \<Rightarrow> nat option" where
  "digits_val after_digit acc [] = (if after_digit then Some acc else None)"
| "digits_val after_digit acc (c # cs) =
     (if c = CHR ''_'' then (if after_digit then digits_val False acc cs else None)
      else case digit_of c of None \<Rightarrow> None | Some d \<Rightarrow> digits_val True (10 * acc + d) cs)"

definition py_int :: "string \<Rightarrow> int option" where
  "py_int s =
     (case py_strip s of
        [] \<Rightarrow> None
      | c # cs \<Rightarrow>
          if c = CHR ''-'' then map_option (\<lambda>n. - int n) (digits_val False 0 cs)
          else if c = CHR ''+'' then map_option int (digits_val False 0 cs)
          else map_option int (digits_val False 0 (c # cs)))"

definition digit_char :: "nat \<Rightarrow> char" where
  "digit_char n = ''0123456789'' ! n"

fun str_nat :: "nat \<Rightarrow> string" where
  "str_nat n = (if n < 10 then [digit_char n] else str_nat (n div 10) @ [digit_char (n mod 10)])"

declare str_nat.simps [simp del]

definition py_str :: "int \<Rightarrow> string" where
  "py_str n = (if n < 0 then CHR ''-'' # str_nat (nat (- n)) else str_nat (nat n))"

text \<open>
  \<^verbatim>\<open>pd.to_timedelta\<close> is a pandas function.  It is a parameter \<open>td\<close> of the model: it
  maps a string to a duration in nanoseconds, \<open>None\<close> where pandas raises ValueError.
  Durations and time stamps are \<open>int\<close> (nanoseconds); a string that pandas would read
  as the not-a-time value is outside the model.
\<close>

definition to_timedelta :: "(string \<Rightarrow> int option) \<Rightarrow> string \<Rightarrow> py_error + int" where
  "to_timedelta td s = (case td s of None \<Rightarrow> Inl ValueError | Some t \<Rightarrow> Inr t)"

text \<open>\<^verbatim>\<open>pd.to_timedelta('5s')\<close>, the grace window of the slot selection.\<close>

definition grace :: int where
  "grace = 5000000000"


section \<open>The decoded frames\<close>

text \<open>
  A frame is \<^verbatim>\<open>[clock, content]\<close>.  Of the content only the \<^verbatim>\<open>'Lines'\<close> dictionary is
  read: driver number to block, in the order of the JSON text (an association list;
  a Python dictionary has no duplicate keys).  A block is a JSON object; each field
  the code reads is an option, \<open>None\<close> when the key is absent.  An object that is read
  only through its \<^verbatim>\<open>'Value'\<close> key is the option of that value.
\<close>

type_synonym valued = "string option"

datatype sectors = SectorList "valued list" | SectorDict "(string \<times> valued) list"

record block =
  blk_NumberOfPitStops :: "int option"
  blk_Sectors :: "sectors option"
  blk_Speeds :: "(string \<times> valued) list option"
  blk_PitOut :: "bool option"
  blk_InPit :: "bool option"
  blk_LastLapTime :: "valued option"
  blk_NumberOfLaps :: "int option"
  blk_Position :: "string option"
  blk_GapToLeader :: "string option"
  blk_IntervalToPositionAhead :: "valued option"

type_synonym lines = "(string \<times> block) list"
type_synonym entry = "string \<times> lines option"

definition empty_block :: block where
  "empty_block = \<lparr>blk_NumberOfPitStops = None, blk_Sectors = None, blk_Speeds = None,
     blk_PitOut = None, blk_InPit = None, blk_LastLapTime = None, blk_NumberOfLaps = None,
     blk_Position = None, blk_GapToLeader = None, blk_IntervalToPositionAhead = None\<rparr>"


section \<open>The lap reconstructor: state\<close>

text \<open>
  \<^verbatim>\<open>data[driver]\<close> is a dictionary of fourteen parallel lists, \<^verbatim>\<open>flags[driver]\<close> one of
  two more.  They are kept as parallel lists here, as in the source: that they stay
  aligned is a property to prove, not one of the representation.
\<close>

record columns =
  Time :: "int option list"
  Driver :: "string option list"
  LastLapTime :: "string option list"
  NumberOfLaps :: "int option list"
  NumberOfPitStops :: "int option list"
  PitOutTime :: "int option list"
  PitInTime :: "int option list"
  Sector1Time :: "string option list"
  Sector2Time :: "string option list"
  Sector3Time :: "string option list"
  SpeedI1 :: "string option list"
  SpeedI2 :: "string option list"
  SpeedFL :: "string option list"
  SpeedST :: "string option list"

record time_ref =
  base :: int
  delta :: int
  ts0 :: "int option"
  ts1 :: "int option"
  ts2 :: "int option"

record lap_flags =
  time_reference :: "time_ref option list"
  locked_times :: "bool list"

type_synonym lap_state = "columns \<times> lap_flags"

definition new_columns :: columns where
  "new_columns = \<lparr>Time = [None], Driver = [None], LastLapTime = [None],
     NumberOfLaps = [None], NumberOfPitStops = [None], PitOutTime = [None],
     PitInTime = [None], Sector1Time = [None], Sector2Time = [None], Sector3Time = [None],
     SpeedI1 = [None], SpeedI2 = [None], SpeedFL = [None], SpeedST = [None]\<rparr>"

definition new_flags :: lap_flags where
  "new_flags = \<lparr>time_reference = [None], locked_times = [False]\<rparr>"

text \<open>\<^verbatim>\<open>[data[driver][key].append(None) for key in data[driver]]\<close>\<close>

definition append_none :: "columns \<Rightarrow> columns" where
  "append_none d = \<lparr>Time = Time d @ [None], Driver = Driver d @ [None],
     LastLapTime = LastLapTime d @ [None], NumberOfLaps = NumberOfLaps d @ [None],
     NumberOfPitStops = NumberOfPitStops d @ [None], PitOutTime = PitOutTime d @ [None],
     PitInTime = PitInTime d @ [None], Sector1Time = Sector1Time d @ [None],
     Sector2Time = Sector2Time d @ [None], Sector3Time = Sector3Time d @ [None],
     SpeedI1 = SpeedI1 d @ [None], SpeedI2 = SpeedI2 d @ [None],
     SpeedFL = SpeedFL d @ [None], SpeedST = SpeedST d @ [None]\<rparr>"

text \<open>\<^verbatim>\<open>data[driver][name][i] = v\<close> for one column, given by its selector and update.\<close>

definition set_col ::
  "(columns \<Rightarrow> 'a list) \<Rightarrow> (('a list \<Rightarrow> 'a list) \<Rightarrow> columns \<Rightarrow> columns) \<Rightarrow>
   int \<Rightarrow> 'a \<Rightarrow> columns \<Rightarrow> py_error + columns" where
  "set_col sel upd i v d = bindE (py_set (sel d) i v) (\<lambda>xs. Inr (upd (\<lambda>_. xs) d))"

text \<open>\<^verbatim>\<open>flags[driver]['time_reference'][i]\<close>, which must be a dictionary to be read.\<close>

definition get_ref :: "lap_flags \<Rightarrow> int \<Rightarrow> py_error + time_ref" where
  "get_ref f i =
     bindE (py_get (time_reference f) i)
       (\<lambda>r. case r of None \<Rightarrow> Inl TypeError | Some t \<Rightarrow> Inr t)"

definition set_ref :: "lap_flags \<Rightarrow> int \<Rightarrow> time_ref \<Rightarrow> py_error + lap_flags" where
  "set_ref f i r =
     bindE (py_set (time_reference f) i (Some r)) (\<lambda>xs. Inr (f\<lparr>time_reference := xs\<rparr>))"


section \<open>The lap reconstructor: one block of one driver\<close>

text \<open>
  Slot selection (\<^verbatim>\<open>i = -1 ... i = -2\<close>).  \<^verbatim>\<open>data[driver]['Time'][-2]\<close> of a record that
  no block ever targeted is still \<^verbatim>\<open>None\<close>; in pandas \<^verbatim>\<open>None + Timedelta\<close> is the
  not-a-time value, to which no time compares as less, so the slot stays \<open>-1\<close>.
\<close>

definition slot_index :: "int option list \<Rightarrow> int \<Rightarrow> py_error + int" where
  "slot_index tcol time =
     (if length tcol > 1 then
        bindE (py_get tcol (- 2))
          (\<lambda>last_time. case last_time of
             None \<Rightarrow> Inr (- 1)
           | Some lt \<Rightarrow> Inr (if time < lt + grace then - 2 else - 1))
      else Inr (- 1))"

text \<open>The time stamp of the packet (unless locked) and the driver.\<close>

definition set_time_driver :: "int \<Rightarrow> string \<Rightarrow> int \<Rightarrow> bool \<Rightarrow> columns \<Rightarrow> py_error + columns" where
  "set_time_driver time driver i no_locked_time d =
     bindE (if no_locked_time then set_col Time Time_update i (Some time) d else Inr d)
       (\<lambda>d. set_col Driver Driver_update i (Some driver) d)"

definition set_pit_stops :: "block \<Rightarrow> int \<Rightarrow> columns \<Rightarrow> py_error + columns" where
  "set_pit_stops blk i d =
     (case blk_NumberOfPitStops blk of
        None \<Rightarrow> Inr d
      | Some n \<Rightarrow> set_col NumberOfPitStops NumberOfPitStops_update i (Some n) d)"

text \<open>\<^verbatim>\<open>data[driver][f'Sector{str(_n+1)}Time'][i] = v\<close>: a KeyError off the three columns.\<close>

definition write_sector :: "int \<Rightarrow> int \<Rightarrow> string \<Rightarrow> columns \<Rightarrow> py_error + columns" where
  "write_sector n i v d =
     (if n = 0 then set_col Sector1Time Sector1Time_update i (Some v) d
      else if n = 1 then set_col Sector2Time Sector2Time_update i (Some v) d
      else if n = 2 then set_col Sector3Time Sector3Time_update i (Some v) d
      else Inl KeyError)"

definition has_measure :: "valued \<Rightarrow> bool" where
  "has_measure sector = (case sector of None \<Rightarrow> False | Some v \<Rightarrow> v \<noteq> [])"

text \<open>
  The body of the loop over the sectors, for sector number \<open>n\<close>.  \<open>no_time_reference\<close>
  is computed once, before the loop, and is not refreshed when the loop creates the
  reference.
\<close>

definition seed_reference ::
  "(string \<Rightarrow> int option) \<Rightarrow> int \<Rightarrow> int \<Rightarrow> bool \<Rightarrow> int \<Rightarrow> valued \<Rightarrow> lap_flags \<Rightarrow>
   py_error + lap_flags" where
  "seed_reference td time i no_time_reference n sector f =
     (if n = 0 \<and> has_measure sector \<and> no_time_reference then
        bindE (key sector) (\<lambda>v.
        bindE (to_timedelta td (''00:00:'' @ v)) (\<lambda>sector_time.
        set_ref f i \<lparr>base = time, delta = sector_time, ts0 = Some sector_time,
                     ts1 = None, ts2 = None\<rparr>))
      else Inr f)"

definition reference_has_ts0 :: "bool \<Rightarrow> int \<Rightarrow> lap_flags \<Rightarrow> py_error + bool" where
  "reference_has_ts0 no_time_reference i f =
     (if no_time_reference then Inr False
      else bindE (get_ref f i) (\<lambda>r. Inr (ts0 r \<noteq> None)))"

definition second_sector ::
  "(string \<Rightarrow> int option) \<Rightarrow> int \<Rightarrow> int \<Rightarrow> bool \<Rightarrow> int \<Rightarrow> valued \<Rightarrow> lap_flags \<Rightarrow>
   py_error + lap_flags" where
  "second_sector td time i has_ts0 n sector f =
     (if n = 1 \<and> has_measure sector \<and> has_ts0 then
        bindE (key sector) (\<lambda>v.
        bindE (to_timedelta td (''00:00:'' @ v)) (\<lambda>sector_time.
        bindE (get_ref f i) (\<lambda>r.
        bindE (key (ts0 r)) (\<lambda>t0.
          let old_reference = base r - delta r;
              new_delta = sector_time + t0;
              new_reference = time - new_delta;
              r1 = (if new_reference < old_reference
                    then r\<lparr>base := time, delta := new_delta\<rparr> else r)
          in set_ref f i (r1\<lparr>ts1 := Some sector_time\<rparr>)))))
      else Inr f)"

definition reference_has_ts01 :: "bool \<Rightarrow> int \<Rightarrow> lap_flags \<Rightarrow> py_error + bool" where
  "reference_has_ts01 has_ts0 i f =
     (if \<not> has_ts0 then Inr False
      else bindE (get_ref f i) (\<lambda>r. Inr (ts1 r \<noteq> None)))"

definition third_sector ::
  "(string \<Rightarrow> int option) \<Rightarrow> int \<Rightarrow> int \<Rightarrow> bool \<Rightarrow> int \<Rightarrow> valued \<Rightarrow> lap_flags \<Rightarrow>
   py_error + lap_flags" where
  "third_sector td time i has_ts01 n sector f =
     (if n = 2 \<and> has_measure sector \<and> has_ts01 then
        bindE (key sector) (\<lambda>v.
        bindE (to_timedelta td (''00:00:'' @ v)) (\<lambda>sector_time.
        bindE (get_ref f i) (\<lambda>r.
        bindE (key (ts1 r)) (\<lambda>t1.
        bindE (key (ts0 r)) (\<lambda>t0.
          let old_reference = base r - delta r;
              new_delta = sector_time + t1 + t0;
              new_reference = time - new_delta;
              r1 = (if new_reference < old_reference
                    then r\<lparr>base := time, delta := new_delta\<rparr> else r)
          in set_ref f i (r1\<lparr>ts2 := Some sector_time\<rparr>))))))
      else Inr f)"

definition sector_body ::
  "(string \<Rightarrow> int option) \<Rightarrow> int \<Rightarrow> int \<Rightarrow> bool \<Rightarrow> int \<Rightarrow> valued \<Rightarrow> lap_state \<Rightarrow>
   py_error + lap_state" where
  "sector_body td time i no_time_reference n sector s =
     (case s of (d, f) \<Rightarrow>
        bindE (case sector of None \<Rightarrow> Inr d | Some v \<Rightarrow> write_sector n i v d) (\<lambda>d.
        bindE (seed_reference td time i no_time_reference n sector f) (\<lambda>f.
        bindE (reference_has_ts0 no_time_reference i f) (\<lambda>has_ts0.
        bindE (second_sector td time i has_ts0 n sector f) (\<lambda>f.
        bindE (reference_has_ts01 has_ts0 i f) (\<lambda>has_ts01.
        bindE (third_sector td time i has_ts01 n sector f) (\<lambda>f.
        Inr (d, f))))))))"

text \<open>
  \<^verbatim>\<open>for _n, sector in enumerate(block['Sectors'])\<close>: over a list the index counts the
  elements; over a dictionary the loop runs over the keys, the index is \<^verbatim>\<open>int(key)\<close>
  and the sector is looked up again under \<^verbatim>\<open>str(_n)\<close>.
\<close>

fun sectors_list ::
  "(string \<Rightarrow> int option) \<Rightarrow> int \<Rightarrow> int \<Rightarrow> bool \<Rightarrow> int \<Rightarrow> valued list \<Rightarrow> lap_state \<Rightarrow>
   py_error + lap_state" where
  "sectors_list td time i nref n [] s = Inr s"
| "sectors_list td time i nref n (sector # rest) s =
     bindE (sector_body td time i nref n sector s) (sectors_list td time i nref (n + 1) rest)"

fun sectors_dict ::
  "(string \<Rightarrow> int option) \<Rightarrow> int \<Rightarrow> int \<Rightarrow> bool \<Rightarrow> (string \<times> valued) list \<Rightarrow> string list \<Rightarrow>
   lap_state \<Rightarrow> py_error + lap_state" where
  "sectors_dict td time i nref dict [] s = Inr s"
| "sectors_dict td time i nref dict (k # ks) s =
     bindE (case py_int k of None \<Rightarrow> Inl ValueError | Some n \<Rightarrow> Inr n) (\<lambda>n.
     bindE (key (map_of dict (py_str n))) (\<lambda>sector.
     bindE (sector_body td time i nref n sector s) (sectors_dict td time i nref dict ks)))"

definition set_sectors ::
  "(string \<Rightarrow> int option) \<Rightarrow> int \<Rightarrow> block \<Rightarrow> int \<Rightarrow> bool \<Rightarrow> lap_state \<Rightarrow> py_error + lap_state" where
  "set_sectors td time blk i nref s =
     (case blk_Sectors blk of
        None \<Rightarrow> Inr s
      | Some (SectorList xs) \<Rightarrow> sectors_list td time i nref 0 xs s
      | Some (SectorDict dict) \<Rightarrow> sectors_dict td time i nref dict (map fst dict) s)"

text \<open>\<^verbatim>\<open>data[driver][f'Speed{trap}'][i] = v\<close>: a KeyError off the four speed traps.\<close>

definition write_speed :: "string \<Rightarrow> int \<Rightarrow> string \<Rightarrow> columns \<Rightarrow> py_error + columns" where
  "write_speed trap i v d =
     (if trap = ''I1'' then set_col SpeedI1 SpeedI1_update i (Some v) d
      else if trap = ''I2'' then set_col SpeedI2 SpeedI2_update i (Some v) d
      else if trap = ''FL'' then set_col SpeedFL SpeedFL_update i (Some v) d
      else if trap = ''ST'' then set_col SpeedST SpeedST_update i (Some v) d
      else Inl KeyError)"

fun speeds_loop :: "int \<Rightarrow> (string \<times> valued) list \<Rightarrow> columns \<Rightarrow> py_error + columns" where
  "speeds_loop i [] d = Inr d"
| "speeds_loop i ((trap, sp) # rest) d =
     bindE (case sp of None \<Rightarrow> Inr d | Some v \<Rightarrow> write_speed trap i v d) (speeds_loop i rest)"

definition set_speeds :: "block \<Rightarrow> int \<Rightarrow> columns \<Rightarrow> py_error + columns" where
  "set_speeds blk i d =
     (case blk_Speeds blk of None \<Rightarrow> Inr d | Some sp \<Rightarrow> speeds_loop i sp d)"

definition set_pit_times :: "int \<Rightarrow> block \<Rightarrow> int \<Rightarrow> columns \<Rightarrow> py_error + columns" where
  "set_pit_times time blk i d =
     bindE (if blk_PitOut blk = Some False
            then set_col PitOutTime PitOutTime_update i (Some time) d else Inr d) (\<lambda>d.
     if blk_InPit blk = Some True
     then set_col PitInTime PitInTime_update i (Some time) d else Inr d)"

text \<open>
  \<^verbatim>\<open>LastLapTime\<close> with a non-empty value: the lap time is stored and, when the record has
  a time reference, the time stamp becomes \<^verbatim>\<open>lap_start_time + lap_time\<close> and the record
  is locked.  This write is not behind the lock.
\<close>

definition set_last_lap ::
  "(string \<Rightarrow> int option) \<Rightarrow> block \<Rightarrow> int \<Rightarrow> lap_state \<Rightarrow> py_error + lap_state" where
  "set_last_lap td blk i s =
     (case s of (d, f) \<Rightarrow>
        (case blk_LastLapTime blk of
           Some (Some v) \<Rightarrow>
             if v \<noteq> [] then
               bindE (set_col LastLapTime LastLapTime_update i (Some v) d) (\<lambda>d.
               bindE (to_timedelta td (''00:'' @ v)) (\<lambda>lap_time.
               bindE (py_get (time_reference f) i) (\<lambda>time_reference.
                 case time_reference of
                   None \<Rightarrow> Inr (d, f)
                 | Some r \<Rightarrow>
                     let lap_start_time = base r - delta r in
                     bindE (set_col Time Time_update i (Some (lap_start_time + lap_time)) d)
                       (\<lambda>d.
                     bindE (py_set (locked_times f) i True) (\<lambda>ls.
                     Inr (d, f\<lparr>locked_times := ls\<rparr>))))))
             else Inr (d, f)
         | _ \<Rightarrow> Inr (d, f)))"

text \<open>\<^verbatim>\<open>NumberOfLaps\<close> is written to the last record and opens a new one in every list.\<close>

definition close_lap :: "block \<Rightarrow> lap_state \<Rightarrow> py_error + lap_state" where
  "close_lap blk s =
     (case s of (d, f) \<Rightarrow>
        (case blk_NumberOfLaps blk of
           None \<Rightarrow> Inr (d, f)
         | Some n \<Rightarrow>
             bindE (set_col NumberOfLaps NumberOfLaps_update (- 1) (Some n) d) (\<lambda>d.
             Inr (append_none d,
                  \<lparr>time_reference = time_reference f @ [None],
                   locked_times = locked_times f @ [False]\<rparr>))))"

text \<open>Lines 235 to 335 of the source: everything after the slot is chosen.\<close>

definition update_record ::
  "(string \<Rightarrow> int option) \<Rightarrow> int \<Rightarrow> block \<Rightarrow> string \<Rightarrow> int \<Rightarrow> lap_state \<Rightarrow> py_error + lap_state" where
  "update_record td time blk driver i s =
     (case s of (d, f) \<Rightarrow>
        bindE (py_get (time_reference f) i) (\<lambda>r0.
        bindE (py_get (locked_times f) i) (\<lambda>locked.
        let no_time_reference = (r0 = None); no_locked_time = (\<not> locked) in
        bindE (set_time_driver time driver i no_locked_time d) (\<lambda>d.
        bindE (set_pit_stops blk i d) (\<lambda>d.
        bindE (set_sectors td time blk i no_time_reference (d, f)) (\<lambda>s1.
        case s1 of (d, f) \<Rightarrow>
        bindE (set_speeds blk i d) (\<lambda>d.
        bindE (set_pit_times time blk i d) (\<lambda>d.
        bindE (set_last_lap td blk i (d, f)) (\<lambda>s2.
        close_lap blk s2)))))))))"

text \<open>
  \<^verbatim>\<open>_timing_data_laps_entry(entry, driver, data, flags)\<close>.  The two dictionaries are
  association lists in insertion order; a new driver is added at the end.
\<close>

type_synonym lap_data = "(string \<times> columns) list"
type_synonym lap_flag_data = "(string \<times> lap_flags) list"

definition timing_data_laps_entry ::
  "(string \<Rightarrow> int option) \<Rightarrow> entry \<Rightarrow> string \<Rightarrow> lap_data \<Rightarrow> lap_flag_data \<Rightarrow>
   py_error + (lap_data \<times> lap_flag_data)" where
  "timing_data_laps_entry td entry driver data flags =
     (let d0 = (case map_of data driver of None \<Rightarrow> new_columns | Some d \<Rightarrow> d);
          f0 = (case map_of flags driver of None \<Rightarrow> new_flags | Some f \<Rightarrow> f)
      in
        bindE (to_timedelta td (fst entry)) (\<lambda>time.
        bindE (key (snd entry)) (\<lambda>ls.
        bindE (key (map_of ls driver)) (\<lambda>blk.
        bindE (slot_index (Time d0) time) (\<lambda>i.
        bindE (update_record td time blk driver i (d0, f0)) (\<lambda>s.
        case s of (d, f) \<Rightarrow>
          Inr (AList.update driver d data, AList.update driver f flags)))))))"

text \<open>The first loop of \<^verbatim>\<open>_timing_data_laps\<close>: every driver of every frame that has lines.\<close>

fun laps_drivers ::
  "(string \<Rightarrow> int option) \<Rightarrow> entry \<Rightarrow> string list \<Rightarrow> lap_data \<times> lap_flag_data \<Rightarrow>
   py_error + (lap_data \<times> lap_flag_data)" where
  "laps_drivers td entry [] st = Inr st"
| "laps_drivers td entry (driver # rest) st =
     bindE (timing_data_laps_entry td entry driver (fst st) (snd st))
       (laps_drivers td entry rest)"

fun laps_frames ::
  "(string \<Rightarrow> int option) \<Rightarrow> entry list \<Rightarrow> lap_data \<times> lap_flag_data \<Rightarrow>
   py_error + (lap_data \<times> lap_flag_data)" where
  "laps_frames td [] st = Inr st"
| "laps_frames td (entry # rest) st =
     (case snd entry of
        None \<Rightarrow> laps_frames td rest st
      | Some ls \<Rightarrow> bindE (laps_drivers td entry (map fst ls) st) (laps_frames td rest))"


section \<open>The lap reconstructor: the finished frame of a driver\<close>

text \<open>
  \<^verbatim>\<open>pd.DataFrame(data[driver])\<close> needs columns of one length (ValueError otherwise).  A
  column of numbers and \<^verbatim>\<open>None\<close> becomes a float column with NaN for \<^verbatim>\<open>None\<close>; both
  are \<open>None\<close> here.
\<close>

definition column_lengths :: "columns \<Rightarrow> nat list" where
  "column_lengths d = [length (Time d), length (Driver d), length (LastLapTime d),
     length (NumberOfLaps d), length (NumberOfPitStops d), length (PitOutTime d),
     length (PitInTime d), length (Sector1Time d), length (Sector2Time d),
     length (Sector3Time d), length (SpeedI1 d), length (SpeedI2 d), length (SpeedFL d),
     length (SpeedST d)]"

definition data_frame :: "columns \<Rightarrow> py_error + columns" where
  "data_frame d =
     (if list_all (\<lambda>n. n = length (Time d)) (column_lengths d) then Inr d else Inl ValueError)"

text \<open>
  \<^verbatim>\<open>_df.iloc[-1][empty_check].any()\<close>: the truth value of the last row over the twelve
  columns other than \<^verbatim>\<open>Time\<close> and \<^verbatim>\<open>Driver\<close>.  \<^verbatim>\<open>any\<close> skips the missing values and
  asks each other one for its Python truth value: a string is true when it is not
  empty, a number or a duration when it is not zero.
\<close>

definition truthy_str :: "string option \<Rightarrow> bool" where
  "truthy_str x = (case x of None \<Rightarrow> False | Some v \<Rightarrow> v \<noteq> [])"

definition truthy_num :: "int option \<Rightarrow> bool" where
  "truthy_num x = (case x of None \<Rightarrow> False | Some n \<Rightarrow> n \<noteq> 0)"

definition last_row_any :: "columns \<Rightarrow> bool" where
  "last_row_any d \<longleftrightarrow>
     truthy_str (last (LastLapTime d)) \<or> truthy_num (last (NumberOfLaps d)) \<or>
     truthy_num (last (NumberOfPitStops d)) \<or> truthy_num (last (PitOutTime d)) \<or>
     truthy_num (last (PitInTime d)) \<or> truthy_str (last (Sector1Time d)) \<or>
     truthy_str (last (Sector2Time d)) \<or> truthy_str (last (Sector3Time d)) \<or>
     truthy_str (last (SpeedI1 d)) \<or> truthy_str (last (SpeedI2 d)) \<or>
     truthy_str (last (SpeedFL d)) \<or> truthy_str (last (SpeedST d))"

text \<open>\<^verbatim>\<open>_df.iloc[:-1]\<close>\<close>

definition drop_last :: "columns \<Rightarrow> columns" where
  "drop_last d = \<lparr>Time = butlast (Time d), Driver = butlast (Driver d),
     LastLapTime = butlast (LastLapTime d), NumberOfLaps = butlast (NumberOfLaps d),
     NumberOfPitStops = butlast (NumberOfPitStops d), PitOutTime = butlast (PitOutTime d),
     PitInTime = butlast (PitInTime d), Sector1Time = butlast (Sector1Time d),
     Sector2Time = butlast (Sector2Time d), Sector3Time = butlast (Sector3Time d),
     SpeedI1 = butlast (SpeedI1 d), SpeedI2 = butlast (SpeedI2 d),
     SpeedFL = butlast (SpeedFL d), SpeedST = butlast (SpeedST d)\<rparr>"

text \<open>\<^verbatim>\<open>if not _df.iloc[-1][empty_check].any(): _df = _df.iloc[:-1]\<close>\<close>

definition trim_last :: "columns \<Rightarrow> py_error + columns" where
  "trim_last d =
     (if length (Time d) = 0 then Inl IndexError
      else Inr (if \<not> last_row_any d then drop_last d else d))"

text \<open>
  The correction of the pit stop count.  \<^verbatim>\<open>max\<close> skips the missing values and is NaN
  (\<open>None\<close>) when there is none; NaN minus one is NaN.  A column without any number is a
  column of objects, on which pandas computes \<^verbatim>\<open>-= 1\<close> for the values that are present
  and leaves the missing ones missing: no step of the correction raises.
\<close>

fun col_max :: "int option list \<Rightarrow> int option" where
  "col_max [] = None"
| "col_max (x # xs) =
     (case x of
        None \<Rightarrow> col_max xs
      | Some v \<Rightarrow> (case col_max xs of None \<Rightarrow> Some v | Some m \<Rightarrow> Some (max v m)))"

definition minus_one :: "int option list \<Rightarrow> int option list" where
  "minus_one col = map (map_option (\<lambda>v. v - 1)) col"

definition pit_laps :: "int option list \<Rightarrow> nat list" where
  "pit_laps col = filter (\<lambda>k. col ! k \<noteq> None) [0..<length col]"

text \<open>\<^verbatim>\<open>_df.loc[_df.index <= lap, 'NumberOfPitStops'] = pit_stops\<close>\<close>

definition assign_upto :: "nat \<Rightarrow> int option \<Rightarrow> int option list \<Rightarrow> int option list" where
  "assign_upto lap v col = map (\<lambda>k. if k \<le> lap then v else col ! k) [0..<length col]"

fun pit_loop :: "nat list \<Rightarrow> int option \<Rightarrow> int option list \<Rightarrow> int option list" where
  "pit_loop [] pit_stops col = col"
| "pit_loop (lap # laps) pit_stops col =
     pit_loop laps (map_option (\<lambda>p. p - 1) pit_stops) (assign_upto lap pit_stops col)"

definition correct_pit_stops :: "int option list \<Rightarrow> int option list" where
  "correct_pit_stops col =
     (let pit_stops = col_max col;
          col1 = minus_one col
      in pit_loop (rev (pit_laps col1 @ [length col1])) pit_stops col1)"

definition finalize_driver :: "columns \<Rightarrow> py_error + columns" where
  "finalize_driver d =
     bindE (data_frame d) (\<lambda>df0.
     bindE (trim_last df0) (\<lambda>df1.
     Inr (df1\<lparr>NumberOfPitStops := correct_pit_stops (NumberOfPitStops df1)\<rparr>)))"

text \<open>\<^verbatim>\<open>pd.concat([df, _df])\<close>, column by column.\<close>

definition concat_columns :: "columns \<Rightarrow> columns \<Rightarrow> columns" where
  "concat_columns a b = \<lparr>Time = Time a @ Time b, Driver = Driver a @ Driver b,
     LastLapTime = LastLapTime a @ LastLapTime b, NumberOfLaps = NumberOfLaps a @ NumberOfLaps b,
     NumberOfPitStops = NumberOfPitStops a @ NumberOfPitStops b,
     PitOutTime = PitOutTime a @ PitOutTime b, PitInTime = PitInTime a @ PitInTime b,
     Sector1Time = Sector1Time a @ Sector1Time b, Sector2Time = Sector2Time a @ Sector2Time b,
     Sector3Time = Sector3Time a @ Sector3Time b, SpeedI1 = SpeedI1 a @ SpeedI1 b,
     SpeedI2 = SpeedI2 a @ SpeedI2 b, SpeedFL = SpeedFL a @ SpeedFL b,
     SpeedST = SpeedST a @ SpeedST b\<rparr>"

fun finalize_all :: "columns option \<Rightarrow> lap_data \<Rightarrow> py_error + columns option" where
  "finalize_all df [] = Inr df"
| "finalize_all df ((driver, d) # rest) =
     bindE (finalize_driver d) (\<lambda>fd.
     finalize_all (case df of None \<Rightarrow> Some fd | Some acc \<Rightarrow> Some (concat_columns acc fd)) rest)"

text \<open>
  \<^verbatim>\<open>_timing_data_laps(path, response, flags)\<close>.  \<^verbatim>\<open>data\<close> starts empty in every call;
  \<^verbatim>\<open>flags\<close> is an argument, changed in place, so it is returned with the frame.  Its
  default value \<^verbatim>\<open>{}\<close> is one dictionary for all calls: a call without the argument
  (as \<^verbatim>\<open>timing_data\<close> makes it) gets the flags that the call before has left.
  \<^verbatim>\<open>empty_check\<close> reads \<^verbatim>\<open>data[driver]\<close> with the loop variable of the first loop, which
  is unbound when no frame had a driver.
\<close>

definition timing_data_laps ::
  "(string \<Rightarrow> int option) \<Rightarrow> entry list \<Rightarrow> lap_flag_data \<Rightarrow>
   py_error + (columns option \<times> lap_flag_data)" where
  "timing_data_laps td response flags =
     bindE (laps_frames td response ([], flags)) (\<lambda>st.
     case st of (data, flags1) \<Rightarrow>
       if data = [] then Inl NameError
       else bindE (finalize_all None data) (\<lambda>df. Inr (df, flags1)))"


section \<open>The gap and position stream\<close>

text \<open>
  \<^verbatim>\<open>_timing_data_stream\<close> keeps five lists per driver.  The clock of the frame is kept as
  the string it is.
\<close>

record gap_columns =
  gap_Time :: "string option list"
  gap_Driver :: "string option list"
  gap_Position :: "string option list"
  gap_GapToLeader :: "string option list"
  gap_IntervalToPositionAhead :: "string option list"

definition new_gap :: gap_columns where
  "new_gap = \<lparr>gap_Time = [], gap_Driver = [], gap_Position = [], gap_GapToLeader = [],
     gap_IntervalToPositionAhead = []\<rparr>"

text \<open>The body of \<^verbatim>\<open>for key in data[driver]\<close>, for one list.\<close>

definition fill_col :: "nat \<Rightarrow> 'a option list \<Rightarrow> 'a option list" where
  "fill_col expected_length col =
     (if length col = 0 then col @ [None]
      else if length col < expected_length then col @ [last col]
      else col)"

definition interval_value :: "block \<Rightarrow> string option" where
  "interval_value blk =
     (case blk_IntervalToPositionAhead blk of None \<Rightarrow> None | Some v \<Rightarrow> v)"

definition new_entry :: "block \<Rightarrow> bool" where
  "new_entry blk \<longleftrightarrow>
     blk_Position blk \<noteq> None \<or> blk_GapToLeader blk \<noteq> None \<or> interval_value blk \<noteq> None"

definition append_present :: "'a option \<Rightarrow> 'a option list \<Rightarrow> 'a option list" where
  "append_present x col = (case x of None \<Rightarrow> col | Some v \<Rightarrow> col @ [Some v])"

definition stream_block :: "string \<Rightarrow> string \<Rightarrow> block \<Rightarrow> gap_columns \<Rightarrow> gap_columns" where
  "stream_block time driver blk g =
     (let pos = append_present (blk_Position blk) (gap_Position g);
          gap = append_present (blk_GapToLeader blk) (gap_GapToLeader g);
          itv = append_present (interval_value blk) (gap_IntervalToPositionAhead g)
      in if new_entry blk then
           (let tm = gap_Time g @ [Some time];
                dr = gap_Driver g @ [Some driver];
                expected_length = length tm
            in \<lparr>gap_Time = fill_col expected_length tm,
                gap_Driver = fill_col expected_length dr,
                gap_Position = fill_col expected_length pos,
                gap_GapToLeader = fill_col expected_length gap,
                gap_IntervalToPositionAhead = fill_col expected_length itv\<rparr>)
         else g)"

type_synonym gap_data = "(string \<times> gap_columns) list"

definition stream_driver :: "string \<Rightarrow> string \<times> block \<Rightarrow> gap_data \<Rightarrow> gap_data" where
  "stream_driver time db data =
     (case db of (driver, blk) \<Rightarrow>
        AList.update driver
          (stream_block time driver blk
             (case map_of data driver of None \<Rightarrow> new_gap | Some g \<Rightarrow> g)) data)"

fun stream_frames :: "entry list \<Rightarrow> gap_data \<Rightarrow> gap_data" where
  "stream_frames [] data = data"
| "stream_frames (entry # rest) data =
     (case snd entry of
        None \<Rightarrow> stream_frames rest data
      | Some ls \<Rightarrow> stream_frames rest (fold (stream_driver (fst entry)) ls data))"

definition gap_frame :: "gap_columns \<Rightarrow> py_error + gap_columns" where
  "gap_frame g =
     (if length (gap_Driver g) = length (gap_Time g) \<and>
         length (gap_Position g) = length (gap_Time g) \<and>
         length (gap_GapToLeader g) = length (gap_Time g) \<and>
         length (gap_IntervalToPositionAhead g) = length (gap_Time g)
      then Inr g else Inl ValueError)"

definition concat_gap :: "gap_columns \<Rightarrow> gap_columns \<Rightarrow> gap_columns" where
  "concat_gap a b = \<lparr>gap_Time = gap_Time a @ gap_Time b,
     gap_Driver = gap_Driver a @ gap_Driver b,
     gap_Position = gap_Position a @ gap_Position b,
     gap_GapToLeader = gap_GapToLeader a @ gap_GapToLeader b,
     gap_IntervalToPositionAhead =
       gap_IntervalToPositionAhead a @ gap_IntervalToPositionAhead b\<rparr>"

fun gap_concat_all :: "gap_columns option \<Rightarrow> gap_data \<Rightarrow> py_error + gap_columns option" where
  "gap_concat_all df [] = Inr df"
| "gap_concat_all df ((driver, g) # rest) =
     bindE (gap_frame g) (\<lambda>fg.
     gap_concat_all (case df of None \<Rightarrow> Some fg | Some acc \<Rightarrow> Some (concat_gap acc fg)) rest)"

definition timing_data_stream :: "entry list \<Rightarrow> py_error + gap_columns option" where
  "timing_data_stream response = gap_concat_all None (stream_frames response [])"


section \<open>The summary table\<close>

text \<open>
  \<^verbatim>\<open>summary\<close> works on two tables, row by row.  Of the lap table the rows carry the
  columns the computation reads (the driver, the time and the pit stop count); the other
  columns of a lap go through unchanged.  Of the table of \<^verbatim>\<open>timing_app_data\<close> they carry
  the five columns kept in \<^verbatim>\<open>useful\<close>.  Numeric columns are float columns, \<open>None\<close> is
  NaN, and NaN plus a number is NaN.
\<close>

record lap_row =
  lap_Driver :: "string option"
  lap_Time :: "int option"
  lap_NumberOfPitStops :: "int option"

record app_row =
  app_Driver :: string
  app_Time :: int
  app_Compound :: "string option"
  app_TotalLaps :: "int option"
  app_New :: "string option"

record merged_row =
  m_Driver :: string
  m_Time :: int
  m_Stint :: "int option"
  m_Compound :: "string option"
  m_TotalLaps :: "int option"
  m_New :: "string option"

record summary_row =
  Driver_of :: string
  Time_of :: int
  Stint :: "int option"
  Compound :: "string option"
  TyreLife :: "int option"
  FreshTyre :: "string option"

text \<open>\<^verbatim>\<open>Series.unique()\<close>: the values in the order of their first occurrence.\<close>

definition unique :: "'a list \<Rightarrow> 'a list" where
  "unique xs = rev (remdups (rev xs))"

text \<open>
  The rows of one driver, sorted by time (\<^verbatim>\<open>sort_values\<close>; rows of equal time keep their
  order here).  \<^verbatim>\<open>merge_asof\<close> refuses a missing time on the left (ValueError).
  Without any lap there is no driver, \<^verbatim>\<open>df\<close> stays \<^verbatim>\<open>None\<close> and \<^verbatim>\<open>df.rename\<close> raises
  AttributeError.  A missing driver among the values of \<^verbatim>\<open>unique()\<close> is equal to the
  driver of no row, and selects none.
\<close>

fun left_rows :: "lap_row list \<Rightarrow> py_error + (int \<times> lap_row) list" where
  "left_rows [] = Inr []"
| "left_rows (r # rs) =
     (case lap_Time r of
        None \<Rightarrow> Inl ValueError
      | Some t \<Rightarrow> bindE (left_rows rs) (\<lambda>xs. Inr ((t, r) # xs)))"

text \<open>
  \<^verbatim>\<open>pd.merge_asof(d1, d2, on='Time', by='Driver')\<close>: each row of \<open>d1\<close> with the last row
  of \<open>d2\<close> whose time is not after its own, and with missing values when there is none.
\<close>

definition asof :: "int \<Rightarrow> app_row list \<Rightarrow> app_row option" where
  "asof t d2 = (case filter (\<lambda>r. app_Time r \<le> t) d2 of [] \<Rightarrow> None | rs \<Rightarrow> Some (last rs))"

definition merge_row :: "string \<Rightarrow> app_row list \<Rightarrow> int \<times> lap_row \<Rightarrow> merged_row" where
  "merge_row driver d2 tr =
     (case tr of (t, r) \<Rightarrow>
        (let m = asof t d2 in
         \<lparr>m_Driver = driver, m_Time = t,
          m_Stint = map_option (\<lambda>n. n + 1) (lap_NumberOfPitStops r),
          m_Compound = (case m of None \<Rightarrow> None | Some a \<Rightarrow> app_Compound a),
          m_TotalLaps = (case m of None \<Rightarrow> None | Some a \<Rightarrow> app_TotalLaps a),
          m_New = (case m of None \<Rightarrow> None | Some a \<Rightarrow> app_New a)\<rparr>))"

definition merge_asof :: "string \<Rightarrow> (int \<times> lap_row) list \<Rightarrow> app_row list \<Rightarrow> merged_row list" where
  "merge_asof driver d1 d2 = map (merge_row driver d2) d1"

text \<open>
  \<^verbatim>\<open>result.loc[sel, 'TotalLaps'] += np.arange(0, sel.sum()) + 1\<close> for the rows whose
  \<^verbatim>\<open>Stint\<close> is \<open>stint\<close>; \<open>k\<close> counts the selected rows passed so far.
\<close>

fun add_running :: "int \<Rightarrow> nat \<Rightarrow> merged_row list \<Rightarrow> merged_row list" where
  "add_running stint k [] = []"
| "add_running stint k (r # rs) =
     (if m_Stint r = Some stint
      then r\<lparr>m_TotalLaps := map_option (\<lambda>t. t + (int k + 1)) (m_TotalLaps r)\<rparr>
             # add_running stint (k + 1) rs
      else r # add_running stint k rs)"

text \<open>A missing \<^verbatim>\<open>Stint\<close> is NaN, which is equal to no row's value: nothing is selected.\<close>

definition stint_step :: "int option \<Rightarrow> merged_row list \<Rightarrow> merged_row list" where
  "stint_step stint rows = (case stint of None \<Rightarrow> rows | Some s \<Rightarrow> add_running s 0 rows)"

definition renumber :: "merged_row list \<Rightarrow> merged_row list" where
  "renumber rows = fold stint_step (unique (map m_Stint rows)) rows"

text \<open>
  The body of the loop over the drivers.  \<^verbatim>\<open>merge_asof\<close> first compares the types of the
  key columns \<^verbatim>\<open>Driver\<close> and \<^verbatim>\<open>Time\<close> of its two tables and raises MergeError when they
  differ.  A column has the type of its values; the columns of a stint table without any
  row (\<^verbatim>\<open>pd.DataFrame\<close> of empty lists) have the type of no value, which is not the type
  of the drivers of the lap table.  \<open>typed\<close> says that the stint table had a row before
  the rows without compound were removed: selecting rows keeps the types.
\<close>

definition summary_driver ::
  "lap_row list \<Rightarrow> bool \<Rightarrow> app_row list \<Rightarrow> string option \<Rightarrow> py_error + merged_row list" where
  "summary_driver laps_data typed useful driver =
     (if \<not> typed then Inl MergeError
      else
        (case driver of
           None \<Rightarrow> Inr []
         | Some drv \<Rightarrow>
             bindE (left_rows (filter (\<lambda>r. lap_Driver r = Some drv) laps_data)) (\<lambda>d1.
             let d1s = sort_key fst d1;
                 d2 = sort_key app_Time (filter (\<lambda>a. app_Driver a = drv) useful)
             in Inr (renumber (merge_asof drv d1s d2)))))"

fun summary_drivers ::
  "lap_row list \<Rightarrow> bool \<Rightarrow> app_row list \<Rightarrow> string option list \<Rightarrow>
   py_error + merged_row list" where
  "summary_drivers laps_data typed useful [] = Inr []"
| "summary_drivers laps_data typed useful (driver # rest) =
     bindE (summary_driver laps_data typed useful driver) (\<lambda>result.
     bindE (summary_drivers laps_data typed useful rest) (\<lambda>df. Inr (result @ df)))"

definition rename_row :: "merged_row \<Rightarrow> summary_row" where
  "rename_row r = \<lparr>Driver_of = m_Driver r, Time_of = m_Time r, Stint = m_Stint r,
     Compound = m_Compound r, TyreLife = m_TotalLaps r, FreshTyre = m_New r\<rparr>"

definition summary :: "lap_row list \<Rightarrow> app_row list \<Rightarrow> py_error + summary_row list" where
  "summary laps_data laps_app_data =
     (let useful = filter (\<lambda>a. app_Compound a \<noteq> None) laps_app_data;
          typed = (laps_app_data \<noteq> [])
      in
        if laps_data = [] then Inl AttributeError
        else
          bindE (summary_drivers laps_data typed useful (unique (map lap_Driver laps_data)))
            (\<lambda>df. Inr (map rename_row df)))"


section \<open>The frame decoder\<close>

text \<open>
  \<^verbatim>\<open>json.loads\<close> and the chain \<^verbatim>\<open>zlib.decompress(base64.b64decode(text), -zlib.MAX_WBITS)\<close>
  followed by \<^verbatim>\<open>.decode('utf-8-sig')\<close> are library functions, parameters of the model:
  \<open>json_loads\<close> is \<open>None\<close> where the text is not JSON, \<open>inflate\<close> gives the exception where
  one of its three steps raises.  \<^verbatim>\<open>logging.warning\<close> is the list of messages returned
  with the value.
\<close>

datatype 'j decoded = Json 'j | Raw string

definition strip_quotes :: "string \<Rightarrow> string" where
  "strip_quotes text =
     rev (dropWhile (\<lambda>c. c = CHR 0x22) (rev (dropWhile (\<lambda>c. c = CHR 0x22) text)))"

function parse ::
  "(string \<Rightarrow> 'j option) \<Rightarrow> (string \<Rightarrow> py_error + string) \<Rightarrow> string \<Rightarrow> bool \<Rightarrow>
   py_error + ('j decoded \<times> string list)" where
  "parse json_loads inflate text zipped =
     (case text of
        [] \<Rightarrow> Inl IndexError
      | c # _ \<Rightarrow>
          if c = CHR ''{'' then
            (case json_loads text of None \<Rightarrow> Inl JSONDecodeError | Some j \<Rightarrow> Inr (Json j, []))
          else
            (let text1 = (if c = CHR 0x22 then strip_quotes text else text) in
             if zipped then
               (case inflate text1 of
                  Inl e \<Rightarrow> Inl e
                | Inr t \<Rightarrow> parse json_loads inflate t False)
             else Inr (Raw text1, [''Couldn't parse text''])))"
  by pat_completeness auto
termination
  by (relation "measure (\<lambda>(j, u, t, z). if z then 1 else 0)") auto

declare parse.simps [simp del]

text \<open>
  The stream branch of \<^verbatim>\<open>fetch_page\<close>, from the list of the records:
  \<^verbatim>\<open>[[e[:tl], parse(e[tl:], zipped=is_z)] for e in entries]\<close> with \<^verbatim>\<open>tl = 12\<close>.  Nothing
  catches an exception of \<^verbatim>\<open>parse\<close>.
\<close>

fun decode_entries ::
  "(string \<Rightarrow> 'j option) \<Rightarrow> (string \<Rightarrow> py_error + string) \<Rightarrow> bool \<Rightarrow> string list \<Rightarrow>
   py_error + ((string \<times> 'j decoded) list \<times> string list)" where
  "decode_entries json_loads inflate zipped [] = Inr ([], [])"
| "decode_entries json_loads inflate zipped (e # es) =
     bindE (parse json_loads inflate (drop 12 e) zipped) (\<lambda>vw.
     bindE (decode_entries json_loads inflate zipped es) (\<lambda>rest.
     Inr ((take 12 e, fst vw) # fst rest, snd vw @ snd rest)))"


section \<open>Alignment of the lists of a driver\<close>

text \<open>
  The lists of a driver are aligned when the fourteen columns and the two lists of flags
  have one length, which is not zero; the state is aligned when the two dictionaries have
  the same drivers in the same order and the lists of each driver are aligned.
\<close>

definition flag_lengths :: "lap_flags \<Rightarrow> nat \<times> nat" where
  "flag_lengths f = (length (time_reference f), length (locked_times f))"

definition aligned :: "columns \<Rightarrow> lap_flags \<Rightarrow> bool" where
  "aligned d f \<longleftrightarrow>
     0 < length (Time d) \<and>
     list_all (\<lambda>n. n = length (Time d)) (column_lengths d) \<and>
     length (time_reference f) = length (Time d) \<and>
     length (locked_times f) = length (Time d)"

definition lap_state_aligned :: "lap_data \<Rightarrow> lap_flag_data \<Rightarrow> bool" where
  "lap_state_aligned data flags \<longleftrightarrow>
     map fst data = map fst flags \<and>
     list_all (\<lambda>driver.
        case map_of data driver of
          None \<Rightarrow> False
        | Some d \<Rightarrow> (case map_of flags driver of None \<Rightarrow> False | Some f \<Rightarrow> aligned d f))
       (map fst data)"


section \<open>Locked records\<close>







definition reference_start :: "string \<Rightarrow> nat \<Rightarrow> lap_data \<times> lap_flag_data \<Rightarrow> int option" where
  "reference_start driver k st =
     (case map_of (snd st) driver of
        None \<Rightarrow> None
      | Some f \<Rightarrow> map_option (\<lambda>r. base r - delta r) (time_reference f ! k))"


section \<open>The time reference of a record\<close>

text \<open>
  A block that carries one sector (in the keyed form, under the key \<open>k\<close>) and nothing
  else, a block that carries a lap time and nothing else, and the lap start
  \<^verbatim>\<open>base - delta\<close> that the time reference of record \<open>k\<close> stands for.
\<close>

definition sector_block :: "string \<Rightarrow> string \<Rightarrow> block" where
  "sector_block k v = empty_block\<lparr>blk_Sectors := Some (SectorDict [(k, Some v)])\<rparr>"

definition lap_block :: "string \<Rightarrow> block" where
  "lap_block v = empty_block\<lparr>blk_LastLapTime := Some (Some v)\<rparr>"


text \<open>
  Between two updates of a record other blocks are processed, and the record is reached
  through another slot once a lap is closed.  \<open>keeps_reference k s s'\<close> relates the lists of
  a driver before and after such blocks: the lists \<open>s'\<close> are aligned, still hold record
  \<open>k\<close>, and the time reference of record \<open>k\<close> is the one of \<open>s\<close>.
\<close>

definition keeps_reference :: "nat \<Rightarrow> lap_state \<Rightarrow> lap_state \<Rightarrow> bool" where
  "keeps_reference k s s' \<longleftrightarrow>
     aligned (fst s') (snd s') \<and> k < length (Time (fst s')) \<and>
     time_reference (snd s') ! k = time_reference (snd s) ! k"


section \<open>Rows of the gap stream\<close>

text \<open>
  The five lists of a driver are even when they have one length: each index is a row.
  \<open>carried x col\<close> is the value of a field in a new row: the value of the block when it
  has one, the value of the last row otherwise, and \<^verbatim>\<open>None\<close> when there is no row yet.
\<close>

definition gap_even :: "gap_columns \<Rightarrow> bool" where
  "gap_even g \<longleftrightarrow>
     length (gap_Driver g) = length (gap_Time g) \<and>
     length (gap_Position g) = length (gap_Time g) \<and>
     length (gap_GapToLeader g) = length (gap_Time g) \<and>
     length (gap_IntervalToPositionAhead g) = length (gap_Time g)"

definition carried :: "'a option \<Rightarrow> 'a option list \<Rightarrow> 'a option" where
  "carried x col = (case x of Some v \<Rightarrow> Some v | None \<Rightarrow> if col = [] then None else last col)"

definition all_even :: "gap_data \<Rightarrow> bool" where
  "all_even data = list_all (\<lambda>p. gap_even (snd p)) data"

text \<open>
  \<open>state_before pre clock before\<close> is the state of the pass when it reaches a block: after
  the frames \<open>pre\<close> and, of the frame of that block, after the drivers \<open>before\<close> it.
  \<open>rows_of data driver\<close> are the five lists of the driver, empty for a driver not yet seen.
  \<open>gap_prefix g g'\<close> says that the rows of \<open>g\<close> are the first rows of \<open>g'\<close>, and
  \<open>concat_frames\<close> is the table of the lists of all drivers, one driver after the other.
\<close>

definition state_before :: "entry list \<Rightarrow> string \<Rightarrow> lines \<Rightarrow> gap_data" where
  "state_before pre clock before = fold (stream_driver clock) before (stream_frames pre [])"

definition rows_of :: "gap_data \<Rightarrow> string \<Rightarrow> gap_columns" where
  "rows_of data driver = (case map_of data driver of None \<Rightarrow> new_gap | Some g \<Rightarrow> g)"

definition gap_prefix :: "gap_columns \<Rightarrow> gap_columns \<Rightarrow> bool" where
  "gap_prefix g g' \<longleftrightarrow>
     take (length (gap_Time g)) (gap_Time g') = gap_Time g \<and>
     take (length (gap_Driver g)) (gap_Driver g') = gap_Driver g \<and>
     take (length (gap_Position g)) (gap_Position g') = gap_Position g \<and>
     take (length (gap_GapToLeader g)) (gap_GapToLeader g') = gap_GapToLeader g \<and>
     take (length (gap_IntervalToPositionAhead g)) (gap_IntervalToPositionAhead g') =
       gap_IntervalToPositionAhead g"

definition concat_frames :: "gap_data \<Rightarrow> gap_columns option" where
  "concat_frames data =
     (case data of [] \<Rightarrow> None | p # ps \<Rightarrow> Some (foldl concat_gap (snd p) (map snd ps)))"



section \<open>An empty last record\<close>

text \<open>
  The words of the specification for the last record: every field other than the time
  and the driver is empty.  A field is empty when it was never written or holds the empty
  string.  \<open>no_zero_last\<close> says that no number of the last record is zero.
\<close>

definition empty_field :: "string option \<Rightarrow> bool" where
  "empty_field x \<longleftrightarrow> x = None \<or> x = Some []"

definition informative_empty :: "columns \<Rightarrow> bool" where
  "informative_empty d \<longleftrightarrow>
     empty_field (last (LastLapTime d)) \<and> last (NumberOfLaps d) = None \<and>
     last (NumberOfPitStops d) = None \<and> last (PitOutTime d) = None \<and>
     last (PitInTime d) = None \<and> empty_field (last (Sector1Time d)) \<and>
     empty_field (last (Sector2Time d)) \<and> empty_field (last (Sector3Time d)) \<and>
     empty_field (last (SpeedI1 d)) \<and> empty_field (last (SpeedI2 d)) \<and>
     empty_field (last (SpeedFL d)) \<and> empty_field (last (SpeedST d))"

definition no_zero_last :: "columns \<Rightarrow> bool" where
  "no_zero_last d \<longleftrightarrow>
     last (NumberOfLaps d) \<noteq> Some 0 \<and> last (NumberOfPitStops d) \<noteq> Some 0 \<and>
     last (PitOutTime d) \<noteq> Some 0 \<and> last (PitInTime d) \<noteq> Some 0"


section \<open>The text that the decoder works on\<close>

text \<open>\<^verbatim>\<open>if text[0] == '"': text = text.strip('"')\<close>\<close>

definition unquote :: "string \<Rightarrow> string" where
  "unquote text = (if hd text = CHR 0x22 then strip_quotes text else text)"


section \<open>The tyre life of a lap\<close>




section \<open>Example inputs\<close>

text \<open>
  The inputs of the examples below.  \<open>example_td\<close> stands for \<^verbatim>\<open>pd.to_timedelta\<close> on the
  strings that occur in them.
\<close>

definition example_td :: "string \<Rightarrow> int option" where
  "example_td = map_of
     [(''00:00:10.000'', 10000000000), (''00:00:14.900'', 14900000000),
      (''00:00:15.100'', 15100000000), (''00:00:30.000'', 30000000000),
      (''00:00:50.000'', 50000000000), (''00:00:51.000'', 51000000000),
      (''00:1:30.000'', 90000000000), (''00:1:31.000'', 91000000000),
      (''00:00:28.500'', 28500000000), (''00:00:31.000'', 31000000000),
      (''00:00:35.000'', 35000000000), (''00:01:03.000'', 63000000000),
      (''00:01:35.000'', 95000000000), (''00:01:36.000'', 96000000000),
      (''00:00:59.000'', 59000000000), (''00:01:35.500'', 95500000000)]"


definition two_flags :: lap_flags where
  "two_flags = \<lparr>time_reference = [None, None], locked_times = [False, False]\<rparr>"

definition aligned_frames :: "entry list" where
  "aligned_frames =
     [(''00:00:10.000'',
        Some [(''44'', empty_block\<lparr>blk_Sectors := Some (SectorDict [(''0'', Some ''30.000'')])\<rparr>)]),
      (''00:00:50.000'',
        Some [(''44'', empty_block\<lparr>blk_NumberOfLaps := Some 1\<rparr>),
              (''33'', empty_block\<lparr>blk_NumberOfPitStops := Some 0\<rparr>)]),
      (''00:00:51.000'', None)]"


definition aligned_data :: lap_data where
  "aligned_data =
     [(''44'', append_none (new_columns\<lparr>Time := [Some 50000000000],
               Driver := [Some ''44''], NumberOfLaps := [Some 1],
               Sector1Time := [Some ''30.000'']\<rparr>)),
           (''33'', new_columns\<lparr>Time := [Some 50000000000], Driver := [Some ''33''],
               NumberOfPitStops := [Some 0]\<rparr>)]"

definition aligned_flags :: lap_flag_data where
  "aligned_flags =
     [(''44'', \<lparr>time_reference =
                      [Some \<lparr>base = 10000000000, delta = 30000000000,
                             ts0 = Some 30000000000, ts1 = None, ts2 = None\<rparr>, None],
                    locked_times = [False, False]\<rparr>),
           (''33'', new_flags)]"















text \<open>
  The order that the source calls usual: the three sectors, then \<^verbatim>\<open>NumberOfLaps\<close>, which
  opens the next record, then \<^verbatim>\<open>LastLapTime\<close> within the grace window.
\<close>

definition usual_frames :: "entry list" where
  "usual_frames =
     [(''00:00:35.000'', Some [(''44'', sector_block ''0'' ''30.000'')]),
      (''00:01:03.000'', Some [(''44'', sector_block ''1'' ''28.500'')]),
      (''00:01:35.000'', Some [(''44'', sector_block ''2'' ''31.000'')]),
      (''00:01:35.500'', Some [(''44'', empty_block\<lparr>blk_NumberOfLaps := Some 1\<rparr>)]),
      (''00:01:36.000'', Some [(''44'', lap_block ''1:30.000'')])]"





definition gap_pre :: "entry list" where
  "gap_pre =
     [(''00:00:10.000'',
        Some [(''44'', empty_block\<lparr>blk_Position := Some ''3'',
                         blk_GapToLeader := Some ''+1.204''\<rparr>)])]"

definition gap_post :: "entry list" where
  "gap_post =
     [(''00:00:14.000'', None),
      (''00:00:15.000'', Some [(''44'', empty_block\<lparr>blk_InPit := Some True\<rparr>)])]"


definition pit_block :: "int \<Rightarrow> int \<Rightarrow> block" where
  "pit_block stops laps = empty_block\<lparr>blk_NumberOfPitStops := Some stops, blk_NumberOfLaps := Some laps\<rparr>"

definition pit_frames :: "entry list" where
  "pit_frames =
     [(''00:00:10.000'', Some [(''44'', pit_block 0 1)]),
      (''00:00:30.000'', Some [(''44'', pit_block 0 2)]),
      (''00:00:50.000'', Some [(''44'', pit_block 1 3)]),
      (''00:01:03.000'', Some [(''44'', pit_block 1 4)]),
      (''00:01:35.000'', Some [(''44'', pit_block 2 5)])]"

definition zero_tail_frames :: "entry list" where
  "zero_tail_frames =
     [(''00:00:10.000'', Some [(''44'', pit_block 1 1)]),
      (''00:00:30.000'', Some [(''44'', empty_block\<lparr>blk_NumberOfPitStops := Some 0\<rparr>)])]"



definition zero_tail :: columns where
  "zero_tail = \<lparr>Time = [Some 10000000000, Some 30000000000],
     Driver = [Some ''44'', Some ''44''], LastLapTime = [None, None],
     NumberOfLaps = [Some 1, None], NumberOfPitStops = [Some 1, Some 0],
     PitOutTime = [None, None], PitInTime = [None, None], Sector1Time = [None, None],
     Sector2Time = [None, None], Sector3Time = [None, None], SpeedI1 = [None, None],
     SpeedI2 = [None, None], SpeedFL = [None, None], SpeedST = [None, None]\<rparr>"


text \<open>
  \<open>example_json\<close> and \<open>example_inflate\<close> stand for \<^verbatim>\<open>json.loads\<close> and for the
  decompression on the strings of the examples: \<^verbatim>\<open>q64FAA==\<close> is the base64 text of the
  four bytes \<^verbatim>\<open>ab ae 05 00\<close>, the raw deflate stream of \<^verbatim>\<open>{}\<close>; \<^verbatim>\<open>e30=\<close> is the base64
  text of \<^verbatim>\<open>{}\<close> itself, which is no deflate stream, and \<^verbatim>\<open>zlib.decompress\<close> raises.
\<close>

definition example_json :: "string \<Rightarrow> nat option" where
  "example_json = map_of [(''{}'', 0)]"

definition example_inflate :: "string \<Rightarrow> py_error + string" where
  "example_inflate s = (if s = ''q64FAA=='' then Inr ''{}'' else Inl DecodeError)"


definition lap_at :: "int \<Rightarrow> int \<Rightarrow> lap_row" where
  "lap_at t stops = \<lparr>lap_Driver = Some ''44'', lap_Time = Some t, lap_NumberOfPitStops = Some stops\<rparr>"

definition stint_at :: "int \<Rightarrow> int \<Rightarrow> app_row" where
  "stint_at t seed = \<lparr>app_Driver = ''44'', app_Time = t, app_Compound = Some ''SOFT'',
     app_TotalLaps = Some seed, app_New = Some ''true''\<rparr>"


definition four_laps :: "lap_row list" where
  "four_laps = [lap_at 10 0, lap_at 20 0, lap_at 30 1, lap_at 40 1]"


definition two_stints :: "app_row list" where
  "two_stints = [stint_at 5 0, stint_at 25 0]"


definition first_call_frames :: "entry list" where
  "first_call_frames = [(''00:00:10.000'', Some [(''44'', pit_block 1 1)])]"

definition second_call_frames :: "entry list" where
  "second_call_frames =
     [(''00:00:30.000'', Some [(''44'', empty_block\<lparr>blk_InPit := Some True\<rparr>)])]"


section \<open>Properties: basic facts\<close>

lemma bindE_Inl [simp]: "bindE (Inl e) f = Inl e"
  by (simp add: bindE_def)

lemma bindE_Inr [simp]: "bindE (Inr x) f = f x"
  by (simp add: bindE_def)

lemma bindE_eq_Inr: "bindE m f = Inr y \<longleftrightarrow> (\<exists>x. m = Inr x \<and> f x = Inr y)"
  by (cases m) simp_all

lemma py_int_keys: "py_int ''0'' = Some 0" "py_int ''1'' = Some 1" "py_int ''2'' = Some 2"
  by (simp_all add: py_int_def py_strip_def py_space_def digit_of_def)

lemma py_str_keys: "py_str 0 = ''0''" "py_str 1 = ''1''" "py_str 2 = ''2''"
  by (simp_all add: py_str_def str_nat.simps digit_char_def)


section \<open>Sectors as a list and as a keyed map\<close>

lemma sectors_dict_3:
  "sectors_dict td time i nref [(''0'', a), (''1'', b), (''2'', c)] [''0'', ''1'', ''2''] s =
   bindE (sector_body td time i nref 0 a s) (\<lambda>s.
   bindE (sector_body td time i nref 1 b s) (\<lambda>s.
   sector_body td time i nref 2 c s))"
  by (cases "sector_body td time i nref 0 a s";
      cases "sector_body td time i nref 1 b (projr (sector_body td time i nref 0 a s))";
      cases "sector_body td time i nref 2 c
               (projr (sector_body td time i nref 1 b
                  (projr (sector_body td time i nref 0 a s))))")
     (simp_all add: py_int_keys py_str_keys key_def)

lemma sectors_list_3:
  "sectors_list td time i nref 0 [a, b, c] s =
   bindE (sector_body td time i nref 0 a s) (\<lambda>s.
   bindE (sector_body td time i nref 1 b s) (\<lambda>s.
   sector_body td time i nref 2 c s))"
  by (cases "sector_body td time i nref 0 a s";
      cases "sector_body td time i nref 1 b (projr (sector_body td time i nref 0 a s))";
      cases "sector_body td time i nref 2 c
               (projr (sector_body td time i nref 1 b
                  (projr (sector_body td time i nref 0 a s))))")
     simp_all

lemma set_sectors_list_dict:
  "set_sectors td time (blk\<lparr>blk_Sectors := Some (SectorList [a, b, c])\<rparr>) i nref s =
   set_sectors td time
     (blk\<lparr>blk_Sectors := Some (SectorDict [(''0'', a), (''1'', b), (''2'', c)])\<rparr>) i nref s"
  by (simp add: set_sectors_def sectors_dict_3 sectors_list_3
      del: sectors_dict.simps sectors_list.simps)

lemma other_fields_Sectors [simp]:
  "set_pit_stops (blk\<lparr>blk_Sectors := x\<rparr>) = set_pit_stops blk"
  "set_speeds (blk\<lparr>blk_Sectors := x\<rparr>) = set_speeds blk"
  "set_pit_times time (blk\<lparr>blk_Sectors := x\<rparr>) = set_pit_times time blk"
  "set_last_lap td (blk\<lparr>blk_Sectors := x\<rparr>) = set_last_lap td blk"
  "close_lap (blk\<lparr>blk_Sectors := x\<rparr>) = close_lap blk"
  by (simp_all add: fun_eq_iff set_pit_stops_def set_speeds_def set_pit_times_def
      set_last_lap_def close_lap_def)

lemma update_record_list_dict:
  "update_record td time (blk\<lparr>blk_Sectors := Some (SectorList [a, b, c])\<rparr>) driver i s =
   update_record td time
     (blk\<lparr>blk_Sectors := Some (SectorDict [(''0'', a), (''1'', b), (''2'', c)])\<rparr>) driver i s"
  by (simp add: update_record_def set_sectors_list_dict)

text \<open>
  C7.  A block whose \<^verbatim>\<open>Sectors\<close> is the list of three sectors and the same block with
  \<^verbatim>\<open>Sectors\<close> as the map keyed \<^verbatim>\<open>"0"\<close>, \<^verbatim>\<open>"1"\<close>, \<^verbatim>\<open>"2"\<close> are processed to the same
  result, whatever the state, the driver, the other fields of the block and the other
  drivers of the frame: the same exception, or the same lists, and so the same
  \<^verbatim>\<open>Sector1Time\<close>, \<^verbatim>\<open>Sector2Time\<close> and \<^verbatim>\<open>Sector3Time\<close> on the targeted record.
\<close>

theorem sectors_list_dict_same:
  "timing_data_laps_entry td
     (clock, Some (AList.update driver (blk\<lparr>blk_Sectors := Some (SectorList [a, b, c])\<rparr>) ls))
     driver data flags =
   timing_data_laps_entry td
     (clock, Some (AList.update driver
        (blk\<lparr>blk_Sectors := Some (SectorDict [(''0'', a), (''1'', b), (''2'', c)])\<rparr>) ls))
     driver data flags"
  by (simp add: timing_data_laps_entry_def update_conv' key_def update_record_list_dict)

text \<open>
  Both forms are processed without an exception on a new driver.  The three sectors come
  in one frame, so only the first one enters the time reference.
\<close>

lemma sectors_list_example:
  "timing_data_laps_entry example_td
     (''00:00:35.000'',
      Some [(''44'', empty_block\<lparr>blk_Sectors :=
               Some (SectorList [Some ''30.000'', Some ''28.500'', Some ''31.000''])\<rparr>)])
     ''44'' [] [] =
   Inr ([(''44'', new_columns\<lparr>Time := [Some 35000000000], Driver := [Some ''44''],
            Sector1Time := [Some ''30.000''], Sector2Time := [Some ''28.500''],
            Sector3Time := [Some ''31.000'']\<rparr>)],
        [(''44'', \<lparr>time_reference =
                     [Some \<lparr>base = 35000000000, delta = 30000000000,
                            ts0 = Some 30000000000, ts1 = None, ts2 = None\<rparr>],
                  locked_times = [False]\<rparr>)])"
  by code_simp


section \<open>The lists of a driver stay aligned\<close>

lemma py_set_length: "py_set xs i v = Inr ys \<Longrightarrow> length ys = length xs"
  by (auto simp: py_set_def split: option.splits)

lemma set_col_lengths:
  "set_col Time Time_update i a d = Inr d' \<Longrightarrow> column_lengths d' = column_lengths d"
  "set_col Driver Driver_update i b d = Inr d' \<Longrightarrow> column_lengths d' = column_lengths d"
  "set_col LastLapTime LastLapTime_update i b d = Inr d' \<Longrightarrow> column_lengths d' = column_lengths d"
  "set_col NumberOfLaps NumberOfLaps_update i a d = Inr d' \<Longrightarrow> column_lengths d' = column_lengths d"
  "set_col NumberOfPitStops NumberOfPitStops_update i a d = Inr d' \<Longrightarrow> column_lengths d' = column_lengths d"
  "set_col PitOutTime PitOutTime_update i a d = Inr d' \<Longrightarrow> column_lengths d' = column_lengths d"
  "set_col PitInTime PitInTime_update i a d = Inr d' \<Longrightarrow> column_lengths d' = column_lengths d"
  "set_col Sector1Time Sector1Time_update i b d = Inr d' \<Longrightarrow> column_lengths d' = column_lengths d"
  "set_col Sector2Time Sector2Time_update i b d = Inr d' \<Longrightarrow> column_lengths d' = column_lengths d"
  "set_col Sector3Time Sector3Time_update i b d = Inr d' \<Longrightarrow> column_lengths d' = column_lengths d"
  "set_col SpeedI1 SpeedI1_update i b d = Inr d' \<Longrightarrow> column_lengths d' = column_lengths d"
  "set_col SpeedI2 SpeedI2_update i b d = Inr d' \<Longrightarrow> column_lengths d' = column_lengths d"
  "set_col SpeedFL SpeedFL_update i b d = Inr d' \<Longrightarrow> column_lengths d' = column_lengths d"
  "set_col SpeedST SpeedST_update i b d = Inr d' \<Longrightarrow> column_lengths d' = column_lengths d"
  by (auto simp: set_col_def bindE_eq_Inr column_lengths_def dest: py_set_length)

lemma set_ref_lengths: "set_ref f i r = Inr f' \<Longrightarrow> flag_lengths f' = flag_lengths f"
  by (auto simp: set_ref_def bindE_eq_Inr flag_lengths_def dest: py_set_length)

lemma set_time_driver_lengths:
  "set_time_driver time driver i nl d = Inr d' \<Longrightarrow> column_lengths d' = column_lengths d"
  by (auto simp: set_time_driver_def bindE_eq_Inr set_col_lengths split: if_splits)

lemma set_pit_stops_lengths:
  "set_pit_stops blk i d = Inr d' \<Longrightarrow> column_lengths d' = column_lengths d"
  by (auto simp: set_pit_stops_def split: option.splits dest: set_col_lengths)

lemma write_sector_lengths:
  "write_sector n i v d = Inr d' \<Longrightarrow> column_lengths d' = column_lengths d"
  by (auto simp: write_sector_def split: if_splits dest: set_col_lengths)

lemma write_speed_lengths:
  "write_speed trap i v d = Inr d' \<Longrightarrow> column_lengths d' = column_lengths d"
  by (auto simp: write_speed_def split: if_splits dest: set_col_lengths)

lemma seed_reference_lengths:
  "seed_reference td time i nref n sector f = Inr f' \<Longrightarrow> flag_lengths f' = flag_lengths f"
  by (auto simp: seed_reference_def bindE_eq_Inr split: if_splits dest: set_ref_lengths)

lemma second_sector_lengths:
  "second_sector td time i h n sector f = Inr f' \<Longrightarrow> flag_lengths f' = flag_lengths f"
  by (auto simp: second_sector_def bindE_eq_Inr Let_def split: if_splits dest: set_ref_lengths)

lemma third_sector_lengths:
  "third_sector td time i h n sector f = Inr f' \<Longrightarrow> flag_lengths f' = flag_lengths f"
  by (auto simp: third_sector_def bindE_eq_Inr Let_def split: if_splits dest: set_ref_lengths)

lemma sector_body_lengths:
  "sector_body td time i nref n sector (d, f) = Inr (d', f') \<Longrightarrow>
   column_lengths d' = column_lengths d \<and> flag_lengths f' = flag_lengths f"
  by (auto simp: sector_body_def bindE_eq_Inr write_sector_lengths seed_reference_lengths
      second_sector_lengths third_sector_lengths split: option.splits)

lemma sectors_list_lengths:
  "sectors_list td time i nref n xs (d, f) = Inr (d', f') \<Longrightarrow>
   column_lengths d' = column_lengths d \<and> flag_lengths f' = flag_lengths f"
proof (induction xs arbitrary: n d f)
  case Nil
  then show ?case by simp
next
  case (Cons x xs)
  from Cons.prems obtain d1 f1 where
    b: "sector_body td time i nref n x (d, f) = Inr (d1, f1)" and
    r: "sectors_list td time i nref (n + 1) xs (d1, f1) = Inr (d', f')"
    by (auto simp: bindE_eq_Inr)
  from sector_body_lengths [OF b] Cons.IH [OF r] show ?case by simp
qed

lemma sectors_dict_lengths:
  "sectors_dict td time i nref dict ks (d, f) = Inr (d', f') \<Longrightarrow>
   column_lengths d' = column_lengths d \<and> flag_lengths f' = flag_lengths f"
proof (induction ks arbitrary: d f)
  case Nil
  then show ?case by simp
next
  case (Cons k ks)
  from Cons.prems obtain n sector d1 f1 where
    b: "sector_body td time i nref n sector (d, f) = Inr (d1, f1)" and
    r: "sectors_dict td time i nref dict ks (d1, f1) = Inr (d', f')"
    by (auto simp: bindE_eq_Inr)
  from sector_body_lengths [OF b] Cons.IH [OF r] show ?case by simp
qed

lemma set_sectors_lengths:
  "set_sectors td time blk i nref (d, f) = Inr (d', f') \<Longrightarrow>
   column_lengths d' = column_lengths d \<and> flag_lengths f' = flag_lengths f"
  by (auto simp: set_sectors_def split: option.splits sectors.splits
      dest: sectors_list_lengths sectors_dict_lengths)

lemma speeds_loop_lengths:
  "speeds_loop i sp d = Inr d' \<Longrightarrow> column_lengths d' = column_lengths d"
proof (induction sp arbitrary: d)
  case Nil
  then show ?case by simp
next
  case (Cons x sp)
  obtain trap v where x: "x = (trap, v)" by (cases x)
  from Cons.prems x obtain d1 where
    b: "(case v of None \<Rightarrow> Inr d | Some w \<Rightarrow> write_speed trap i w d) = Inr d1" and
    r: "speeds_loop i sp d1 = Inr d'"
    by (auto simp: bindE_eq_Inr)
  from b have "column_lengths d1 = column_lengths d"
    by (auto split: option.splits dest: write_speed_lengths)
  with Cons.IH [OF r] show ?case by simp
qed

lemma set_speeds_lengths:
  "set_speeds blk i d = Inr d' \<Longrightarrow> column_lengths d' = column_lengths d"
  by (auto simp: set_speeds_def split: option.splits dest: speeds_loop_lengths)

lemma set_pit_times_lengths:
  "set_pit_times time blk i d = Inr d' \<Longrightarrow> column_lengths d' = column_lengths d"
  by (auto simp: set_pit_times_def bindE_eq_Inr set_col_lengths split: if_splits)

lemma set_last_lap_lengths:
  "set_last_lap td blk i (d, f) = Inr (d', f') \<Longrightarrow>
   column_lengths d' = column_lengths d \<and> flag_lengths f' = flag_lengths f"
  by (auto simp: set_last_lap_def bindE_eq_Inr Let_def flag_lengths_def set_col_lengths
      py_set_length split: option.splits if_splits)

lemma close_lap_lengths:
  "close_lap blk (d, f) = Inr (d', f') \<Longrightarrow>
   column_lengths d' = map (\<lambda>n. n + (if blk_NumberOfLaps blk = None then 0 else 1)) (column_lengths d) \<and>
   flag_lengths f' = (fst (flag_lengths f) + (if blk_NumberOfLaps blk = None then 0 else 1),
                       snd (flag_lengths f) + (if blk_NumberOfLaps blk = None then 0 else 1))"
  by (auto simp: close_lap_def bindE_eq_Inr flag_lengths_def append_none_def
      column_lengths_def set_col_def py_set_length
      split: option.splits)

lemma update_record_lengths:
  assumes "update_record td time blk driver i (d, f) = Inr (d', f')"
  shows "column_lengths d' =
           map (\<lambda>n. n + (if blk_NumberOfLaps blk = None then 0 else 1)) (column_lengths d) \<and>
         flag_lengths f' =
           (fst (flag_lengths f) + (if blk_NumberOfLaps blk = None then 0 else 1),
            snd (flag_lengths f) + (if blk_NumberOfLaps blk = None then 0 else 1))"
proof -
  from assms obtain d1 d2 d3 f3 d4 d5 d6 f6 where
    s1: "set_time_driver time driver i
           (\<not> projr (py_get (locked_times f) i)) d = Inr d1" and
    s2: "set_pit_stops blk i d1 = Inr d2" and
    s3: "set_sectors td time blk i (projr (py_get (time_reference f) i) = None) (d2, f)
           = Inr (d3, f3)" and
    s4: "set_speeds blk i d3 = Inr d4" and
    s5: "set_pit_times time blk i d4 = Inr d5" and
    s6: "set_last_lap td blk i (d5, f3) = Inr (d6, f6)" and
    s7: "close_lap blk (d6, f6) = Inr (d', f')"
    by (auto simp: update_record_def bindE_eq_Inr Let_def split: prod.splits)
  from set_time_driver_lengths [OF s1] set_pit_stops_lengths [OF s2]
    set_sectors_lengths [OF s3] set_speeds_lengths [OF s4] set_pit_times_lengths [OF s5]
    set_last_lap_lengths [OF s6] close_lap_lengths [OF s7]
  show ?thesis by simp
qed

lemma update_record_aligned:
  assumes "update_record td time blk driver i (d, f) = Inr (d', f')" and "aligned d f"
  shows "aligned d' f'"
  using update_record_lengths [OF assms(1)] assms(2)
  by (auto simp: aligned_def flag_lengths_def column_lengths_def)


section \<open>Slot selection\<close>

lemma py_idx_last: "0 < n \<Longrightarrow> py_idx n (- 1) = Some (n - 1)"
  by (auto simp: py_idx_def Let_def)






section \<open>The lists stay aligned over a run\<close>

lemma aligned_new: "aligned new_columns new_flags"
  by (simp add: aligned_def new_columns_def new_flags_def column_lengths_def)

lemma aligned_case_iff:
  "(case map_of data k of
      None \<Rightarrow> False
    | Some d \<Rightarrow> (case map_of flags k of None \<Rightarrow> False | Some f \<Rightarrow> aligned d f)) \<longleftrightarrow>
   (\<exists>d f. map_of data k = Some d \<and> map_of flags k = Some f \<and> aligned d f)"
  by (cases "map_of data k"; cases "map_of flags k") simp_all

lemma lap_state_aligned_iff:
  "lap_state_aligned data flags \<longleftrightarrow>
     map fst data = map fst flags \<and>
     (\<forall>k \<in> set (map fst data).
        \<exists>d f. map_of data k = Some d \<and> map_of flags k = Some f \<and> aligned d f)"
  by (simp only: lap_state_aligned_def list_all_iff aligned_case_iff)

lemma map_of_None_keys: "map_of al k = None \<longleftrightarrow> k \<notin> set (map fst al)"
  by (simp add: map_of_eq_None_iff)

lemma entry_aligned:
  assumes inv: "lap_state_aligned data flags"
    and run: "timing_data_laps_entry td entry driver data flags = Inr (data', flags')"
  shows "lap_state_aligned data' flags'"
proof -
  define d0 where "d0 = (case map_of data driver of None \<Rightarrow> new_columns | Some d \<Rightarrow> d)"
  define f0 where "f0 = (case map_of flags driver of None \<Rightarrow> new_flags | Some f \<Rightarrow> f)"
  from inv have keys: "map fst data = map fst flags"
    and each: "\<And>k. k \<in> set (map fst data) \<Longrightarrow>
       \<exists>d f. map_of data k = Some d \<and> map_of flags k = Some f \<and> aligned d f"
    unfolding lap_state_aligned_iff by blast+
  have a0: "aligned d0 f0"
  proof (cases "driver \<in> set (map fst data)")
    case True
    from each [OF True] show ?thesis by (auto simp: d0_def f0_def)
  next
    case False
    then have "map_of data driver = None" "map_of flags driver = None"
      using keys by (simp_all add: map_of_None_keys)
    then show ?thesis by (simp add: d0_def f0_def aligned_new)
  qed
  from run obtain time blk i d' f' where
    u: "update_record td time blk driver i (d0, f0) = Inr (d', f')" and
    res: "data' = AList.update driver d' data" "flags' = AList.update driver f' flags"
    by (auto simp: timing_data_laps_entry_def bindE_eq_Inr d0_def f0_def Let_def
        split: prod.splits)
  have a': "aligned d' f'" using u a0 by (rule update_record_aligned)
  have k': "map fst data' = map fst flags'"
    using keys by (simp add: res update_keys)
  have "\<exists>d f. map_of data' k = Some d \<and> map_of flags' k = Some f \<and> aligned d f"
    if "k \<in> set (map fst data')" for k
  proof (cases "k = driver")
    case True
    then show ?thesis using a' by (simp add: res update_conv')
  next
    case False
    with that have "k \<in> set (map fst data)"
      by (auto simp: res update_keys split: if_splits)
    from each [OF this] False show ?thesis by (simp add: res update_conv')
  qed
  with k' show ?thesis unfolding lap_state_aligned_iff by blast
qed

lemma laps_drivers_aligned:
  "lap_state_aligned (fst st) (snd st) \<Longrightarrow> laps_drivers td entry ds st = Inr st' \<Longrightarrow>
   lap_state_aligned (fst st') (snd st')"
proof (induction ds arbitrary: st)
  case Nil
  then show ?case by simp
next
  case (Cons driver ds)
  from Cons.prems(2) obtain st1 where
    e: "timing_data_laps_entry td entry driver (fst st) (snd st) = Inr st1" and
    r: "laps_drivers td entry ds st1 = Inr st'"
    by (auto simp: bindE_eq_Inr)
  from e have "timing_data_laps_entry td entry driver (fst st) (snd st) = Inr (fst st1, snd st1)"
    by simp
  from entry_aligned [OF Cons.prems(1) this] have "lap_state_aligned (fst st1) (snd st1)" .
  from Cons.IH [OF this r] show ?case .
qed

lemma laps_frames_aligned:
  "lap_state_aligned (fst st) (snd st) \<Longrightarrow> laps_frames td response st = Inr st' \<Longrightarrow>
   lap_state_aligned (fst st') (snd st')"
proof (induction response arbitrary: st)
  case Nil
  then show ?case by simp
next
  case (Cons entry response)
  show ?case
  proof (cases "snd entry")
    case None
    with Cons.prems(2) have "laps_frames td response st = Inr st'" by simp
    from Cons.IH [OF Cons.prems(1) this] show ?thesis .
  next
    case (Some ls)
    with Cons.prems(2) obtain st1 where
      e: "laps_drivers td entry (map fst ls) st = Inr st1" and
      r: "laps_frames td response st1 = Inr st'"
      by (auto simp: bindE_eq_Inr)
    from laps_drivers_aligned [OF Cons.prems(1) e] have "lap_state_aligned (fst st1) (snd st1)" .
    from Cons.IH [OF this r] show ?thesis .
  qed
qed

text \<open>
  In a run that starts from the empty state, after any sequence of frames that is
  processed without an exception, the two dictionaries have the same drivers, and for
  every driver the fourteen columns, \<^verbatim>\<open>time_reference\<close> and \<^verbatim>\<open>locked_times\<close> have one
  length, at least one: the indices \<open>-1\<close> and \<open>-2\<close> address the same record in every
  list.
\<close>

lemma lists_stay_aligned:
  assumes "laps_frames td response ([], []) = Inr (data, flags)"
  shows "lap_state_aligned data flags \<and>
         (\<forall>driver d f. map_of data driver = Some d \<and> map_of flags driver = Some f \<longrightarrow>
            0 < length (Time d) \<and>
            list_all (\<lambda>n. n = length (Time d)) (column_lengths d) \<and>
            length (time_reference f) = length (Time d) \<and>
            length (locked_times f) = length (Time d))"
proof -
  have "lap_state_aligned (fst ([], [])) (snd ([], []))"
    by (simp add: lap_state_aligned_def)
  from laps_frames_aligned [OF this assms] have a: "lap_state_aligned data flags" by simp
  have "aligned d f" if "map_of data driver = Some d" "map_of flags driver = Some f"
    for driver d f
  proof -
    from that(1) have "driver \<in> set (map fst data)"
      by (metis map_of_None_keys option.distinct(1))
    with a that show ?thesis unfolding lap_state_aligned_iff by fastforce
  qed
  with a show ?thesis by (auto simp: aligned_def)
qed

lemma aligned_frames_run:
  "laps_frames example_td aligned_frames ([], []) = Inr (aligned_data, aligned_flags)"
  by code_simp

lemma lists_stay_aligned_example:
  "laps_frames example_td aligned_frames ([], []) = Inr (aligned_data, aligned_flags) \<and>
   lap_state_aligned aligned_data aligned_flags \<and>
   map_of aligned_data ''44'' \<noteq> None \<and> map_of aligned_flags ''44'' \<noteq> None"
  using lists_stay_aligned [OF aligned_frames_run] aligned_frames_run
  by (simp add: aligned_data_def aligned_flags_def)

text \<open>
  C10.  The lists of a driver are aligned only when the call starts without flags for the
  driver.  \<^verbatim>\<open>_timing_data_laps\<close> starts every call with an empty \<^verbatim>\<open>data\<close> and with the
  \<^verbatim>\<open>flags\<close> it is given, which by default is the dictionary the call before has filled.
  A first call on \<open>first_call_frames\<close> leaves two flags for driver 44; a second call on
  \<open>second_call_frames\<close> then has columns of length 1 beside flag lists of length 2.
\<close>

theorem stale_flags_misaligned:
  "(case timing_data_laps example_td first_call_frames [] of
      Inr (df, flags1) \<Rightarrow> flags1 = [(''44'', two_flags)]
    | Inl e \<Rightarrow> False) \<and>
   (case laps_frames example_td second_call_frames ([], [(''44'', two_flags)]) of
      Inr (data, flags) \<Rightarrow>
        map_option (\<lambda>d. column_lengths d) (map_of data ''44'') =
          Some [1, 1, 1, 1, 1, 1, 1, 1, 1, 1, 1, 1, 1, 1] \<and>
        map_option flag_lengths (map_of flags ''44'') = Some (2, 2) \<and>
        \<not> lap_state_aligned data flags
    | Inl e \<Rightarrow> False) \<and>
   (case timing_data_laps example_td second_call_frames [(''44'', two_flags)] of
      Inr (df, flags2) \<Rightarrow> True
    | Inl e \<Rightarrow> False)"
  by code_simp


section \<open>A locked time stamp\<close>




























section \<open>The time reference converges to the least start\<close>

lemma aligned_lengths:
  assumes "aligned d f"
  shows "length (Driver d) = length (Time d)" "length (LastLapTime d) = length (Time d)"
    "length (NumberOfLaps d) = length (Time d)" "length (NumberOfPitStops d) = length (Time d)"
    "length (PitOutTime d) = length (Time d)" "length (PitInTime d) = length (Time d)"
    "length (Sector1Time d) = length (Time d)" "length (Sector2Time d) = length (Time d)"
    "length (Sector3Time d) = length (Time d)" "length (SpeedI1 d) = length (Time d)"
    "length (SpeedI2 d) = length (Time d)" "length (SpeedFL d) = length (Time d)"
    "length (SpeedST d) = length (Time d)"
    "length (time_reference f) = length (Time d)" "length (locked_times f) = length (Time d)"
  using assms by (simp_all add: aligned_def column_lengths_def)






lemma set_ref_other:
  assumes "set_ref f i r = Inr f'" and "py_idx (length (time_reference f)) i = Some j"
    and "j \<noteq> k"
  shows "time_reference f' ! k = time_reference f ! k"
  using assms by (auto simp: set_ref_def bindE_eq_Inr py_set_def)

lemma seed_reference_other:
  assumes "seed_reference td time i nref n sector f = Inr f'"
    and "py_idx (length (time_reference f)) i = Some j" and "j \<noteq> k"
  shows "time_reference f' ! k = time_reference f ! k"
  using assms by (auto simp: seed_reference_def bindE_eq_Inr split: if_splits dest: set_ref_other)

lemma second_sector_other:
  assumes "second_sector td time i h n sector f = Inr f'"
    and "py_idx (length (time_reference f)) i = Some j" and "j \<noteq> k"
  shows "time_reference f' ! k = time_reference f ! k"
  using assms
  by (auto simp: second_sector_def bindE_eq_Inr Let_def split: if_splits dest: set_ref_other)

lemma third_sector_other:
  assumes "third_sector td time i h n sector f = Inr f'"
    and "py_idx (length (time_reference f)) i = Some j" and "j \<noteq> k"
  shows "time_reference f' ! k = time_reference f ! k"
  using assms
  by (auto simp: third_sector_def bindE_eq_Inr Let_def split: if_splits dest: set_ref_other)

lemma flag_lengths_reference:
  "flag_lengths f' = flag_lengths f \<Longrightarrow> length (time_reference f') = length (time_reference f)"
  by (simp add: flag_lengths_def)

lemma sector_body_other:
  assumes run: "sector_body td time i nref n sector (d, f) = Inr (d', f')"
    and ix: "py_idx (length (time_reference f)) i = Some j" and jk: "j \<noteq> k"
  shows "time_reference f' ! k = time_reference f ! k"
proof -
  from run obtain d1 f1 h0 f2 h1 where
    s1: "seed_reference td time i nref n sector f = Inr f1" and
    s2: "second_sector td time i h0 n sector f1 = Inr f2" and
    s3: "third_sector td time i h1 n sector f2 = Inr f'"
    by (auto simp: sector_body_def bindE_eq_Inr)
  have l1: "length (time_reference f1) = length (time_reference f)"
    using seed_reference_lengths [OF s1] by (rule flag_lengths_reference)
  have l2: "length (time_reference f2) = length (time_reference f1)"
    using second_sector_lengths [OF s2] by (rule flag_lengths_reference)
  from seed_reference_other [OF s1 ix jk]
    second_sector_other [OF s2 _ jk] third_sector_other [OF s3 _ jk] ix l1 l2
  show ?thesis by simp
qed

lemma sectors_list_other:
  "sectors_list td time i nref n xs (d, f) = Inr (d', f') \<Longrightarrow>
   py_idx (length (time_reference f)) i = Some j \<Longrightarrow> j \<noteq> k \<Longrightarrow>
   time_reference f' ! k = time_reference f ! k"
proof (induction xs arbitrary: n d f)
  case Nil
  then show ?case by simp
next
  case (Cons x xs)
  from Cons.prems(1) obtain d1 f1 where
    b: "sector_body td time i nref n x (d, f) = Inr (d1, f1)" and
    r: "sectors_list td time i nref (n + 1) xs (d1, f1) = Inr (d', f')"
    by (auto simp: bindE_eq_Inr)
  from sector_body_lengths [OF b] have "length (time_reference f1) = length (time_reference f)"
    by (simp add: flag_lengths_def)
  with Cons.prems(2) have ix1: "py_idx (length (time_reference f1)) i = Some j" by simp
  from sector_body_other [OF b Cons.prems(2,3)] Cons.IH [OF r ix1 Cons.prems(3)]
  show ?case by simp
qed

lemma sectors_dict_other:
  "sectors_dict td time i nref dict ks (d, f) = Inr (d', f') \<Longrightarrow>
   py_idx (length (time_reference f)) i = Some j \<Longrightarrow> j \<noteq> k \<Longrightarrow>
   time_reference f' ! k = time_reference f ! k"
proof (induction ks arbitrary: d f)
  case Nil
  then show ?case by simp
next
  case (Cons key ks)
  from Cons.prems(1) obtain n sector d1 f1 where
    b: "sector_body td time i nref n sector (d, f) = Inr (d1, f1)" and
    r: "sectors_dict td time i nref dict ks (d1, f1) = Inr (d', f')"
    by (auto simp: bindE_eq_Inr)
  from sector_body_lengths [OF b] have "length (time_reference f1) = length (time_reference f)"
    by (simp add: flag_lengths_def)
  with Cons.prems(2) have ix1: "py_idx (length (time_reference f1)) i = Some j" by simp
  from sector_body_other [OF b Cons.prems(2,3)] Cons.IH [OF r ix1 Cons.prems(3)]
  show ?case by simp
qed

lemma set_sectors_other:
  assumes "set_sectors td time blk i nref (d, f) = Inr (d', f')"
    and "py_idx (length (time_reference f)) i = Some j"
    and "blk_Sectors blk = None \<or> j \<noteq> k"
  shows "time_reference f' ! k = time_reference f ! k"
  using assms
  by (auto simp: set_sectors_def split: option.splits sectors.splits
      dest: sectors_list_other sectors_dict_other)

lemma set_last_lap_reference:
  "set_last_lap td blk i (d, f) = Inr (d', f') \<Longrightarrow> time_reference f' = time_reference f"
  by (auto simp: set_last_lap_def bindE_eq_Inr Let_def split: option.splits if_splits)

lemma close_lap_reference:
  "close_lap blk (d, f) = Inr (d', f') \<Longrightarrow> k < length (time_reference f) \<Longrightarrow>
   time_reference f' ! k = time_reference f ! k"
  by (auto simp: close_lap_def bindE_eq_Inr nth_append split: option.splits)

lemma update_record_keeps_reference:
  assumes al: "aligned d f" and k: "k < length (Time d)"
    and ix: "py_idx (length (Time d)) i = Some j"
    and other: "blk_Sectors blk = None \<or> j \<noteq> k"
    and run: "update_record td time blk driver i (d, f) = Inr s'"
  shows "keeps_reference k (d, f) s'"
proof -
  obtain d' f' where s': "s' = (d', f')" by (cases s')
  from run s' obtain d1 d2 d3 f3 d4 d5 d6 f6 where
    s3: "set_sectors td time blk i (projr (py_get (time_reference f) i) = None) (d2, f)
           = Inr (d3, f3)" and
    s6: "set_last_lap td blk i (d5, f3) = Inr (d6, f6)" and
    s7: "close_lap blk (d6, f6) = Inr (d', f')"
    by (auto simp: update_record_def bindE_eq_Inr Let_def split: prod.splits)
  note L = aligned_lengths [OF al]
  have ixf: "py_idx (length (time_reference f)) i = Some j" using ix L by simp
  from set_sectors_other [OF s3 ixf other]
  have r3: "time_reference f3 ! k = time_reference f ! k" .
  from set_sectors_lengths [OF s3]
  have l3: "length (time_reference f3) = length (time_reference f)"
    by (simp add: flag_lengths_def)
  from set_last_lap_reference [OF s6] have r6: "time_reference f6 = time_reference f3" .
  have "k < length (time_reference f6)" using r6 l3 L k by simp
  from close_lap_reference [OF s7 this] r6 r3
  have r: "time_reference f' ! k = time_reference f ! k" by simp
  from update_record_aligned [of td time blk driver i d f d' f'] run s' al
  have a': "aligned d' f'" by simp
  from update_record_lengths [of td time blk driver i d f d' f'] run s'
  have "length (Time d') = length (Time d) + (if blk_NumberOfLaps blk = None then 0 else 1)"
    by (simp add: column_lengths_def)
  with k have "k < length (Time d')" by simp
  with a' r s' show ?thesis by (simp add: keeps_reference_def)
qed




text \<open>
  The same sectors in the usual order, as a run: the lap is closed at 95.5 s, the lap time
  comes at 96 s, is written to the record before the last, and leaves 94.5 s there.
\<close>

lemma usual_order_run:
  "(case laps_frames example_td usual_frames ([], []) of
      Inl e \<Rightarrow> False
    | Inr st \<Rightarrow>
        map_option Time (map_of (fst st) ''44'') = Some [Some 94500000000, None] \<and>
        map_option locked_times (map_of (snd st) ''44'') = Some [True, False] \<and>
        reference_start ''44'' 0 st = Some 4500000000)"
  by code_simp


section \<open>The gap stream emits full rows\<close>

lemma fill_col_present:
  "length col = n \<Longrightarrow> fill_col (Suc n) (append_present (Some v) col) = col @ [Some v]"
  by (simp add: fill_col_def append_present_def)

lemma fill_col_absent:
  "length col = n \<Longrightarrow>
   fill_col (Suc n) (append_present None col) = col @ [if col = [] then None else last col]"
  by (auto simp: fill_col_def append_present_def)

lemma fill_col_carried:
  "length col = n \<Longrightarrow> fill_col (Suc n) (append_present x col) = col @ [carried x col]"
  by (cases x) (simp_all add: fill_col_present fill_col_absent carried_def)

lemma fill_col_full: "length col = n \<Longrightarrow> fill_col (Suc n) (col @ [x]) = col @ [x]"
  by (simp add: fill_col_def)

lemma stream_block_new:
  assumes "gap_even g" and "new_entry blk"
  shows "stream_block time driver blk g =
     \<lparr>gap_Time = gap_Time g @ [Some time], gap_Driver = gap_Driver g @ [Some driver],
      gap_Position = gap_Position g @ [carried (blk_Position blk) (gap_Position g)],
      gap_GapToLeader = gap_GapToLeader g @ [carried (blk_GapToLeader blk) (gap_GapToLeader g)],
      gap_IntervalToPositionAhead = gap_IntervalToPositionAhead g @
        [carried (interval_value blk) (gap_IntervalToPositionAhead g)]\<rparr>"
  using assms
  by (simp add: stream_block_def Let_def gap_even_def fill_col_carried fill_col_full)

lemma stream_block_none: "\<not> new_entry blk \<Longrightarrow> stream_block time driver blk g = g"
  by (simp add: stream_block_def Let_def)

lemma stream_block_even:
  assumes "gap_even g"
  shows "gap_even (stream_block time driver blk g)"
proof (cases "new_entry blk")
  case True
  from stream_block_new [OF assms True] assms show ?thesis
    by (simp add: gap_even_def)
next
  case False
  then show ?thesis using assms by (simp add: stream_block_none)
qed

lemma gap_even_new: "gap_even new_gap"
  by (simp add: gap_even_def new_gap_def)

lemma map_of_even: "all_even data \<Longrightarrow> map_of data k = Some g \<Longrightarrow> gap_even g"
  using map_of_SomeD [of data k g] by (fastforce simp: all_even_def list_all_iff)

lemma update_even: "all_even data \<Longrightarrow> gap_even g \<Longrightarrow> all_even (AList.update k g data)"
  by (induction data) (auto simp: all_even_def)

lemma stream_driver_even: "all_even data \<Longrightarrow> all_even (stream_driver time db data)"
proof -
  assume a: "all_even data"
  obtain driver blk where db: "db = (driver, blk)" by (cases db)
  have "gap_even (case map_of data driver of None \<Rightarrow> new_gap | Some g \<Rightarrow> g)"
    using a by (auto simp: gap_even_new split: option.splits dest: map_of_even)
  then have "gap_even (stream_block time driver blk
      (case map_of data driver of None \<Rightarrow> new_gap | Some g \<Rightarrow> g))"
    by (rule stream_block_even)
  with a db show ?thesis by (simp add: stream_driver_def update_even)
qed

lemma fold_stream_driver_even:
  "all_even data \<Longrightarrow> all_even (fold (stream_driver time) ls data)"
  by (induction ls arbitrary: data) (simp_all add: stream_driver_even)

lemma stream_frames_even: "all_even data \<Longrightarrow> all_even (stream_frames response data)"
  by (induction response arbitrary: data)
     (auto simp: fold_stream_driver_even split: option.splits)

lemma gap_concat_all_returns:
  "all_even data \<Longrightarrow> \<exists>r. gap_concat_all df data = Inr r"
proof (induction data arbitrary: df)
  case Nil
  then show ?case by simp
next
  case (Cons p data)
  obtain driver g where p: "p = (driver, g)" by (cases p)
  from Cons.prems p have "gap_frame g = Inr g" "all_even data"
    by (simp_all add: all_even_def gap_frame_def gap_even_def)
  with Cons.IH p show ?case by simp
qed

lemma timing_data_stream_returns: "\<exists>df. timing_data_stream response = Inr df"
  unfolding timing_data_stream_def
  by (rule gap_concat_all_returns, rule stream_frames_even) (simp add: all_even_def)



lemma stream_frames_append:
  "stream_frames (pre @ post) data = stream_frames post (stream_frames pre data)"
  by (induction pre arbitrary: data) (auto split: option.splits)

lemma stream_frames_block:
  "stream_frames (pre @ (clock, Some (before @ (driver, blk) # after)) # post) [] =
   stream_frames post (fold (stream_driver clock) after
     (stream_driver clock (driver, blk) (state_before pre clock before)))"
  by (simp add: stream_frames_append state_before_def)

lemma state_before_even: "all_even (state_before pre clock before)"
  unfolding state_before_def
  by (rule fold_stream_driver_even, rule stream_frames_even) (simp add: all_even_def)

lemma rows_of_even: "all_even data \<Longrightarrow> gap_even (rows_of data driver)"
  by (auto simp: rows_of_def gap_even_new split: option.splits dest: map_of_even)

lemma stream_driver_other:
  "other \<noteq> driver \<Longrightarrow> map_of (stream_driver clock (driver, blk) data) other = map_of data other"
  by (simp add: stream_driver_def update_conv')

lemma stream_driver_self:
  "rows_of (stream_driver clock (driver, blk) data) driver =
   stream_block clock driver blk (rows_of data driver)"
  by (simp add: stream_driver_def update_conv' rows_of_def)

lemma gap_prefix_refl: "gap_prefix g g"
  by (simp add: gap_prefix_def)

lemma gap_prefix_trans: "gap_prefix a b \<Longrightarrow> gap_prefix b c \<Longrightarrow> gap_prefix a c"
  unfolding gap_prefix_def
  by (metis append_eq_conv_conj append_take_drop_id append.assoc)

lemma stream_block_prefix: "gap_even g \<Longrightarrow> gap_prefix g (stream_block clock driver blk g)"
  by (cases "new_entry blk")
     (simp_all add: stream_block_new stream_block_none gap_prefix_def)

lemma stream_driver_prefix:
  "all_even data \<Longrightarrow> gap_prefix (rows_of data driver) (rows_of (stream_driver clock db data) driver)"
proof -
  assume a: "all_even data"
  obtain drv blk where db: "db = (drv, blk)" by (cases db)
  show ?thesis
  proof (cases "drv = driver")
    case True
    with db show ?thesis
      by (simp add: stream_driver_self stream_block_prefix rows_of_even [OF a])
  next
    case False
    then have "rows_of (stream_driver clock db data) driver = rows_of data driver"
      using db by (simp add: rows_of_def stream_driver_other)
    then show ?thesis by (simp add: gap_prefix_refl)
  qed
qed

lemma fold_stream_driver_prefix:
  "all_even data \<Longrightarrow>
   gap_prefix (rows_of data driver) (rows_of (fold (stream_driver clock) ls data) driver)"
proof (induction ls arbitrary: data)
  case Nil
  then show ?case by (simp add: gap_prefix_refl)
next
  case (Cons db ls)
  from stream_driver_prefix [OF Cons.prems]
  have 1: "gap_prefix (rows_of data driver) (rows_of (stream_driver clock db data) driver)" .
  from Cons.IH [OF stream_driver_even [OF Cons.prems]]
  have 2: "gap_prefix (rows_of (stream_driver clock db data) driver)
     (rows_of (fold (stream_driver clock) ls (stream_driver clock db data)) driver)" .
  from gap_prefix_trans [OF 1 2] show ?case by simp
qed

lemma stream_frames_prefix:
  "all_even data \<Longrightarrow>
   gap_prefix (rows_of data driver) (rows_of (stream_frames response data) driver)"
proof (induction response arbitrary: data)
  case Nil
  then show ?case by (simp add: gap_prefix_refl)
next
  case (Cons entry response)
  show ?case
  proof (cases "snd entry")
    case None
    with Cons show ?thesis by simp
  next
    case (Some ls)
    from fold_stream_driver_prefix [OF Cons.prems]
    have 1: "gap_prefix (rows_of data driver)
       (rows_of (fold (stream_driver (fst entry)) ls data) driver)" .
    from Cons.IH [OF fold_stream_driver_even [OF Cons.prems]]
    have 2: "gap_prefix (rows_of (fold (stream_driver (fst entry)) ls data) driver)
       (rows_of (stream_frames response (fold (stream_driver (fst entry)) ls data)) driver)" .
    from gap_prefix_trans [OF 1 2] Some show ?thesis by simp
  qed
qed

lemma gap_concat_all_even:
  "all_even data \<Longrightarrow>
   gap_concat_all (Some acc) data = Inr (Some (foldl concat_gap acc (map snd data)))"
proof (induction data arbitrary: acc)
  case Nil
  then show ?case by simp
next
  case (Cons p data)
  obtain driver g where p: "p = (driver, g)" by (cases p)
  from Cons.prems p have "gap_frame g = Inr g" "all_even data"
    by (simp_all add: all_even_def gap_frame_def gap_even_def)
  with Cons.IH p show ?case by simp
qed

lemma timing_data_stream_concat:
  "timing_data_stream response = Inr (concat_frames (stream_frames response []))"
proof -
  have a: "all_even (stream_frames response [])"
    by (rule stream_frames_even) (simp add: all_even_def)
  show ?thesis
  proof (cases "stream_frames response []")
    case Nil
    then show ?thesis by (simp add: timing_data_stream_def concat_frames_def)
  next
    case (Cons p ps)
    obtain driver g where p: "p = (driver, g)" by (cases p)
    from a Cons p have "gap_frame g = Inr g" "all_even ps"
      by (simp_all add: all_even_def gap_frame_def gap_even_def)
    with Cons p show ?thesis
      by (simp add: timing_data_stream_def concat_frames_def gap_concat_all_even)
  qed
qed

text \<open>
  C5.  The pass over the frames reaches every block of every frame that has lines: the
  result of the pass over a response is the result of the rest of the pass on the state
  that the block leaves.  When the block is reached the lists of its driver are even.
  The block changes the lists of no other driver.  A row is emitted exactly when the
  block has \<^verbatim>\<open>Position\<close>, \<^verbatim>\<open>GapToLeader\<close> or a \<^verbatim>\<open>Value\<close> in
  \<^verbatim>\<open>IntervalToPositionAhead\<close>: without one the lists of the driver are unchanged, with
  one each list gets one element, the clock, the driver, and for each of the three fields
  the value of the block or else the one of the last row of that driver (\<^verbatim>\<open>None\<close> when
  the driver has no row).  The rows of the driver are still the first rows of the driver
  at the end of the pass, and the table returned is made of the lists of all drivers.
\<close>

theorem gap_row_emitted:
  "let response = pre @ (clock, Some (before @ (driver, blk) # after)) # post;
       data = state_before pre clock before;
       g = rows_of data driver;
       data' = stream_driver clock (driver, blk) data;
       final = stream_frames response []
   in final = stream_frames post (fold (stream_driver clock) after data') \<and>
      gap_even g \<and>
      (\<forall>other. other \<noteq> driver \<longrightarrow> map_of data' other = map_of data other) \<and>
      (new_entry blk \<longleftrightarrow>
         blk_Position blk \<noteq> None \<or> blk_GapToLeader blk \<noteq> None \<or>
         (\<exists>v. blk_IntervalToPositionAhead blk = Some (Some v))) \<and>
      (\<not> new_entry blk \<longrightarrow> rows_of data' driver = g) \<and>
      (new_entry blk \<longrightarrow>
         rows_of data' driver =
           \<lparr>gap_Time = gap_Time g @ [Some clock], gap_Driver = gap_Driver g @ [Some driver],
            gap_Position = gap_Position g @ [carried (blk_Position blk) (gap_Position g)],
            gap_GapToLeader =
              gap_GapToLeader g @ [carried (blk_GapToLeader blk) (gap_GapToLeader g)],
            gap_IntervalToPositionAhead = gap_IntervalToPositionAhead g @
              [carried (interval_value blk) (gap_IntervalToPositionAhead g)]\<rparr>) \<and>
      gap_prefix (rows_of data' driver) (rows_of final driver) \<and>
      timing_data_stream response = Inr (concat_frames final)"
proof -
  define data where "data = state_before pre clock before"
  define g where "g = rows_of data driver"
  define data' where "data' = stream_driver clock (driver, blk) data"
  define response where "response = pre @ (clock, Some (before @ (driver, blk) # after)) # post"
  define final where "final = stream_frames response []"
  have a: "all_even data" unfolding data_def by (rule state_before_even)
  have a': "all_even data'" unfolding data'_def using a by (rule stream_driver_even)
  have e: "gap_even g" unfolding g_def using a by (rule rows_of_even)
  have f: "final = stream_frames post (fold (stream_driver clock) after data')"
    unfolding final_def response_def data'_def data_def by (rule stream_frames_block)
  have o: "\<forall>other. other \<noteq> driver \<longrightarrow> map_of data' other = map_of data other"
    by (simp add: data'_def stream_driver_other)
  have n: "new_entry blk \<longleftrightarrow>
         blk_Position blk \<noteq> None \<or> blk_GapToLeader blk \<noteq> None \<or>
         (\<exists>v. blk_IntervalToPositionAhead blk = Some (Some v))"
    by (auto simp: new_entry_def interval_value_def split: option.splits)
  have r: "rows_of data' driver = stream_block clock driver blk g"
    by (simp add: data'_def g_def stream_driver_self)
  have p1: "gap_prefix (rows_of data' driver)
      (rows_of (fold (stream_driver clock) after data') driver)"
    using a' by (rule fold_stream_driver_prefix)
  have p2: "gap_prefix (rows_of (fold (stream_driver clock) after data') driver)
      (rows_of final driver)"
    unfolding f by (rule stream_frames_prefix, rule fold_stream_driver_even, rule a')
  have p: "gap_prefix (rows_of data' driver) (rows_of final driver)"
    using p1 p2 by (rule gap_prefix_trans)
  have t: "timing_data_stream response = Inr (concat_frames final)"
    unfolding final_def by (rule timing_data_stream_concat)
  from f e o n r p t stream_block_new [OF e, of blk clock driver]
    stream_block_none [of blk clock driver g]
  show ?thesis
    unfolding Let_def response_def [symmetric] data_def [symmetric] g_def [symmetric]
      data'_def [symmetric] final_def [symmetric]
    by simp
qed

theorem gap_row_emitted_witness:
  "new_entry (empty_block\<lparr>blk_Position := Some ''2''\<rparr>) \<and>
   rows_of (state_before gap_pre ''00:00:12.000'' [(''33'', empty_block\<lparr>blk_Position := Some ''1''\<rparr>)])
     ''44'' =
     \<lparr>gap_Time = [Some ''00:00:10.000''], gap_Driver = [Some ''44''],
      gap_Position = [Some ''3''], gap_GapToLeader = [Some ''+1.204''],
      gap_IntervalToPositionAhead = [None]\<rparr> \<and>
   rows_of (stream_driver ''00:00:12.000'' (''44'', empty_block\<lparr>blk_Position := Some ''2''\<rparr>)
      (state_before gap_pre ''00:00:12.000''
         [(''33'', empty_block\<lparr>blk_Position := Some ''1''\<rparr>)])) ''44'' =
     \<lparr>gap_Time = [Some ''00:00:10.000'', Some ''00:00:12.000''],
      gap_Driver = [Some ''44'', Some ''44''],
      gap_Position = [Some ''3'', Some ''2''],
      gap_GapToLeader = [Some ''+1.204'', Some ''+1.204''],
      gap_IntervalToPositionAhead = [None, None]\<rparr> \<and>
   ''33'' \<noteq> ''44'' \<and>
   map_of (stream_driver ''00:00:12.000'' (''44'', empty_block\<lparr>blk_Position := Some ''2''\<rparr>)
      (state_before gap_pre ''00:00:12.000''
         [(''33'', empty_block\<lparr>blk_Position := Some ''1''\<rparr>)])) ''33'' =
     Some \<lparr>gap_Time = [Some ''00:00:12.000''], gap_Driver = [Some ''33''],
        gap_Position = [Some ''1''], gap_GapToLeader = [None],
        gap_IntervalToPositionAhead = [None]\<rparr> \<and>
   \<not> new_entry (empty_block\<lparr>blk_InPit := Some True\<rparr>) \<and>
   rows_of (stream_driver ''00:00:12.000'' (''44'', empty_block\<lparr>blk_InPit := Some True\<rparr>)
      (state_before gap_pre ''00:00:12.000''
         [(''33'', empty_block\<lparr>blk_Position := Some ''1''\<rparr>)])) ''44'' =
     \<lparr>gap_Time = [Some ''00:00:10.000''], gap_Driver = [Some ''44''],
      gap_Position = [Some ''3''], gap_GapToLeader = [Some ''+1.204''],
      gap_IntervalToPositionAhead = [None]\<rparr> \<and>
   timing_data_stream
     (gap_pre @
      (''00:00:12.000'',
       Some ([(''33'', empty_block\<lparr>blk_Position := Some ''1''\<rparr>)] @
             (''44'', empty_block\<lparr>blk_Position := Some ''2''\<rparr>) # [])) # gap_post) =
     Inr (Some
       \<lparr>gap_Time = [Some ''00:00:10.000'', Some ''00:00:12.000'', Some ''00:00:12.000''],
        gap_Driver = [Some ''44'', Some ''44'', Some ''33''],
        gap_Position = [Some ''3'', Some ''2'', Some ''1''],
        gap_GapToLeader = [Some ''+1.204'', Some ''+1.204'', None],
        gap_IntervalToPositionAhead = [None, None, None]\<rparr>)"
proof -
  have s: "state_before gap_pre ''00:00:12.000''
      [(''33'', empty_block\<lparr>blk_Position := Some ''1''\<rparr>)] =
    [(''44'', \<lparr>gap_Time = [Some ''00:00:10.000''], gap_Driver = [Some ''44''],
        gap_Position = [Some ''3''], gap_GapToLeader = [Some ''+1.204''],
        gap_IntervalToPositionAhead = [None]\<rparr>),
     (''33'', \<lparr>gap_Time = [Some ''00:00:12.000''], gap_Driver = [Some ''33''],
        gap_Position = [Some ''1''], gap_GapToLeader = [None],
        gap_IntervalToPositionAhead = [None]\<rparr>)]"
    by code_simp
  have n: "new_entry (empty_block\<lparr>blk_Position := Some ''2''\<rparr>)"
    "\<not> new_entry (empty_block\<lparr>blk_InPit := Some True\<rparr>)"
    by (simp_all add: new_entry_def empty_block_def interval_value_def)
  from gap_row_emitted [of gap_pre "''00:00:12.000''"
      "[(''33'', empty_block\<lparr>blk_Position := Some ''1''\<rparr>)]" "''44''"
      "empty_block\<lparr>blk_Position := Some ''2''\<rparr>" "[]" gap_post]
    gap_row_emitted [of gap_pre "''00:00:12.000''"
      "[(''33'', empty_block\<lparr>blk_Position := Some ''1''\<rparr>)]" "''44''"
      "empty_block\<lparr>blk_InPit := Some True\<rparr>" "[]" gap_post] n
  show ?thesis
    unfolding Let_def s
    by (simp add: rows_of_def carried_def interval_value_def empty_block_def gap_post_def
        stream_driver_def stream_block_def new_entry_def concat_frames_def concat_gap_def
        append_present_def fill_col_def)
qed


section \<open>Trimming the last record\<close>

lemma truthy_str_iff: "truthy_str x \<longleftrightarrow> \<not> empty_field x"
  by (cases x) (simp_all add: truthy_str_def empty_field_def)

lemma truthy_num_iff: "x \<noteq> Some 0 \<Longrightarrow> truthy_num x \<longleftrightarrow> x \<noteq> None"
  by (cases x) (simp_all add: truthy_num_def)

lemma last_row_any_iff: "no_zero_last d \<Longrightarrow> last_row_any d \<longleftrightarrow> \<not> informative_empty d"
  by (auto simp: no_zero_last_def last_row_any_def informative_empty_def truthy_str_iff
      truthy_num_iff)

lemma trim_last_without_zero:
  assumes "Time d \<noteq> []" and "no_zero_last d"
  shows "trim_last d = Inr (if informative_empty d then drop_last d else d)"
  using assms by (simp add: trim_last_def last_row_any_iff)

text \<open>
  C8.  Away from zeros the last record is dropped exactly when it is empty
  (\<open>trim_last_without_zero\<close>).  A last record whose only field is a pit stop count of 0
  is not empty, and is dropped: the frames \<open>zero_tail_frames\<close> leave the driver with the
  two records of \<open>zero_tail\<close>, and the finished frame has one row.
\<close>

theorem zero_count_tail_dropped:
  "(case laps_frames example_td zero_tail_frames ([], []) of
      Inr (data, flags) \<Rightarrow> map_of data ''44'' = Some zero_tail
    | Inl e \<Rightarrow> False) \<and>
   last (NumberOfPitStops zero_tail) = Some 0 \<and> \<not> informative_empty zero_tail \<and>
   trim_last zero_tail = Inr (drop_last zero_tail) \<and>
   (case timing_data_laps example_td zero_tail_frames [] of
      Inr (Some df, flags) \<Rightarrow> Time df = [Some 10000000000] \<and> NumberOfLaps df = [Some 1]
    | _ \<Rightarrow> False)"
  by code_simp


section \<open>The correction of the pit stop count\<close>

text \<open>
  The corrected count of row \<open>r\<close> is the greatest recorded count less the number of rows
  at or after \<open>r\<close> that hold a recorded count.
\<close>

lemma assign_upto_length [simp]: "length (assign_upto l v col) = length col"
  by (simp add: assign_upto_def)

lemma assign_upto_nth:
  "r < length col \<Longrightarrow> assign_upto l v col ! r = (if r \<le> l then v else col ! r)"
  by (simp add: assign_upto_def)

lemma pit_loop_length [simp]: "length (pit_loop laps ps col) = length col"
  by (induction laps arbitrary: ps col) simp_all

lemma pit_loop_nth:
  "sorted_wrt (>) laps \<Longrightarrow> r < length col \<Longrightarrow>
   pit_loop laps ps col ! r =
     (if \<exists>l \<in> set laps. r \<le> l
      then map_option (\<lambda>p. p - int (length (filter (\<lambda>l. r \<le> l) laps)) + 1) ps
      else col ! r)"
proof (induction laps arbitrary: ps col)
  case Nil
  then show ?case by simp
next
  case (Cons l ls)
  from Cons.prems have s: "sorted_wrt (>) ls" and gt: "\<And>x. x \<in> set ls \<Longrightarrow> x < l"
    by auto
  have len: "r < length (assign_upto l ps col)" using Cons.prems(2) by simp
  note IH = Cons.IH [OF s len, of "map_option (\<lambda>p. p - 1) ps"]
  show ?case
  proof (cases "\<exists>x \<in> set ls. r \<le> x")
    case True
    then have "r \<le> l" using gt by fastforce
    with True IH show ?thesis
      by (cases ps) (auto simp: option.map_comp comp_def)
  next
    case False
    then have "filter (\<lambda>x. r \<le> x) ls = []" by (auto simp: filter_empty_conv)
    with False IH Cons.prems(2) show ?thesis
      by (cases ps) (auto simp: assign_upto_nth)
  qed
qed

lemma pit_laps_sorted: "sorted_wrt (<) (pit_laps col)"
  by (simp add: pit_laps_def sorted_wrt_filter)

lemma pit_laps_bound: "p \<in> set (pit_laps col) \<Longrightarrow> p < length col"
  by (simp add: pit_laps_def)

lemma pit_laps_minus: "pit_laps (map (map_option g) col) = pit_laps col"
  unfolding pit_laps_def by (rule filter_cong) auto

lemma correct_pit_stops_nth:
  assumes "r < length col"
  shows "length (correct_pit_stops col) = length col \<and>
         correct_pit_stops col ! r =
           map_option (\<lambda>m. m - int (length (filter (\<lambda>p. r \<le> p) (pit_laps col))))
             (col_max col)"
proof -
  define col1 where "col1 = map (map_option (\<lambda>v. v - 1)) col"
  define laps where "laps = rev (pit_laps col1 @ [length col1])"
  have l1: "length col1 = length col" and pl: "pit_laps col1 = pit_laps col"
    by (simp_all add: col1_def pit_laps_minus)
  have laps: "laps = length col # rev (pit_laps col)" by (simp add: laps_def l1 pl)
  have "sorted_wrt (>) (rev (pit_laps col))"
    using pit_laps_sorted [of col] by (simp add: sorted_wrt_rev)
  then have srt: "sorted_wrt (>) laps"
    using pit_laps_bound [of _ col] by (auto simp: laps)
  have ex: "\<exists>l \<in> set laps. r \<le> l" using assms by (auto simp: laps)
  have cnt: "length (filter (\<lambda>l. r \<le> l) laps) =
             Suc (length (filter (\<lambda>p. r \<le> p) (pit_laps col)))"
    using assms by (simp add: laps rev_filter [symmetric])
  have r1: "r < length col1" using assms l1 by simp
  have "correct_pit_stops col = pit_loop laps (col_max col) col1"
    by (simp add: correct_pit_stops_def minus_one_def col1_def laps_def Let_def)
  moreover have "pit_loop laps (col_max col) col1 ! r =
      map_option (\<lambda>m. m - int (length (filter (\<lambda>p. r \<le> p) (pit_laps col)))) (col_max col)"
    using pit_loop_nth [OF srt r1, of "col_max col"] ex cnt
    by (cases "col_max col") auto
  ultimately show ?thesis by (simp add: l1)
qed

text \<open>
  C2.  A pit stop count recorded in every lap, 0, 0, 1, 1, 2: the corrected column starts
  at \<open>-3\<close>, not at 0.  The frames \<open>pit_frames\<close> record these counts in five laps.
\<close>

theorem pit_stops_start_below_zero:
  "correct_pit_stops [Some 0, Some 0, Some 1, Some 1, Some 2] =
     [Some (- 3), Some (- 2), Some (- 1), Some 0, Some 1] \<and>
   correct_pit_stops [None, None, Some 1, None, Some 2] =
     [Some 0, Some 0, Some 0, Some 1, Some 1] \<and>
   (case laps_frames example_td pit_frames ([], []) of
      Inr (data, flags) \<Rightarrow>
        map_option NumberOfPitStops (map_of data ''44'') =
          Some [Some 0, Some 0, Some 1, Some 1, Some 2, None]
    | Inl e \<Rightarrow> False) \<and>
   (case timing_data_laps example_td pit_frames [] of
      Inr (Some df, flags) \<Rightarrow>
        NumberOfPitStops df = [Some (- 3), Some (- 2), Some (- 1), Some 0, Some 1]
    | _ \<Rightarrow> False)"
  by code_simp


section \<open>The frame decoder\<close>

lemma decode_entries_isl:
  "isl (decode_entries js infl z es) \<longleftrightarrow> (\<exists>e \<in> set es. isl (parse js infl (drop 12 e) z))"
proof (induction es)
  case Nil
  then show ?case by simp
next
  case (Cons e es)
  show ?case
  proof (cases "parse js infl (drop 12 e) z")
    case (Inl err)
    then show ?thesis by simp
  next
    case (Inr vw)
    then show ?thesis using Cons.IH
      by (cases "decode_entries js infl z es") simp_all
  qed
qed

text \<open>
  C9 (as amended).  An empty payload raises IndexError.  A payload that begins with
  \<open>{\<close> is the parsed JSON value, or raises when it is not JSON.  Any other payload has its
  surrounding quotes stripped when it begins with one; on a compressed channel it is then
  decoded and decompressed and the result parsed again (or the exception of that step is
  raised), on any other channel it is returned as a string with one warning.  The stream
  is decoded exactly when every record is: the exception of one record is the result of
  the whole stream.
\<close>

theorem parse_cases:
  "(payload = [] \<longrightarrow> parse js infl payload z = Inl IndexError) \<and>
   (payload \<noteq> [] \<and> hd payload = CHR ''{'' \<longrightarrow>
      parse js infl payload z =
        (case js payload of None \<Rightarrow> Inl JSONDecodeError | Some j \<Rightarrow> Inr (Json j, []))) \<and>
   (payload \<noteq> [] \<and> hd payload \<noteq> CHR ''{'' \<and> z \<longrightarrow>
      parse js infl payload z =
        (case infl (unquote payload) of Inl e \<Rightarrow> Inl e | Inr t \<Rightarrow> parse js infl t False)) \<and>
   (payload \<noteq> [] \<and> hd payload \<noteq> CHR ''{'' \<and> \<not> z \<longrightarrow>
      parse js infl payload z = Inr (Raw (unquote payload), [''Couldn't parse text''])) \<and>
   (isl (decode_entries js infl z es) \<longleftrightarrow>
      (\<exists>e \<in> set es. isl (parse js infl (drop 12 e) z)))"
proof -
  have 1: "payload = [] \<longrightarrow> parse js infl payload z = Inl IndexError"
    by (simp add: parse.simps [of js infl "[]" z])
  have 2: "payload \<noteq> [] \<and> hd payload = CHR ''{'' \<longrightarrow>
      parse js infl payload z =
        (case js payload of None \<Rightarrow> Inl JSONDecodeError | Some j \<Rightarrow> Inr (Json j, []))"
    by (cases payload) (simp_all add: parse.simps [of js infl "_ # _" z])
  have 3: "payload \<noteq> [] \<and> hd payload \<noteq> CHR ''{'' \<and> z \<longrightarrow>
      parse js infl payload z =
        (case infl (unquote payload) of Inl e \<Rightarrow> Inl e | Inr t \<Rightarrow> parse js infl t False)"
    by (cases payload)
       (simp_all add: parse.simps [of js infl "_ # _" True] unquote_def Let_def)
  have 4: "payload \<noteq> [] \<and> hd payload \<noteq> CHR ''{'' \<and> \<not> z \<longrightarrow>
      parse js infl payload z = Inr (Raw (unquote payload), [''Couldn't parse text''])"
    by (cases payload)
       (simp_all add: parse.simps [of js infl "_ # _" False] unquote_def Let_def)
  from 1 2 3 4 decode_entries_isl [of js infl z es] show ?thesis by blast
qed

theorem parse_cases_witness:
  "parse example_json example_inflate ''{}'' False = Inr (Json 0, []) \<and>
   parse example_json example_inflate (CHR 0x22 # ''q64FAA=='' @ [CHR 0x22]) True =
     Inr (Json 0, []) \<and>
   parse example_json example_inflate ''e30='' True = Inl DecodeError \<and>
   parse example_json example_inflate ''[1]'' False = Inr (Raw ''[1]'', [''Couldn't parse text'']) \<and>
   parse example_json example_inflate [] False = Inl IndexError \<and>
   isl (decode_entries example_json example_inflate False [''00:00:01.000{}'', ''00:00:02.000''])"
  using parse_cases [of "''{}''" example_json example_inflate False "[]"]
    parse_cases [of "CHR 0x22 # ''q64FAA=='' @ [CHR 0x22]" example_json example_inflate True "[]"]
    parse_cases [of "''e30=''" example_json example_inflate True "[]"]
    parse_cases [of "''[1]''" example_json example_inflate False "[]"]
    parse_cases [of "[]" example_json example_inflate False
      "[''00:00:01.000{}'', ''00:00:02.000'']"]
  by (simp add: example_json_def example_inflate_def unquote_def strip_quotes_def)

text \<open>
  C9 as stated fails: a record without payload, or one that begins with \<open>{\<close> and is not
  JSON, aborts the decoding of the stream that decodes without it.
\<close>

theorem bad_record_aborts_stream:
  "decode_entries example_json example_inflate False
     [''00:00:01.000{}'', ''00:00:02.000'', ''00:00:03.000{}''] = Inl IndexError \<and>
   decode_entries example_json example_inflate False
     [''00:00:01.000{}'', ''00:00:02.000{x'', ''00:00:03.000{}''] = Inl JSONDecodeError \<and>
   decode_entries example_json example_inflate False
     [''00:00:01.000{}'', ''00:00:03.000{}''] =
       Inr ([(''00:00:01.000'', Json 0), (''00:00:03.000'', Json 0)], [])"
  by (simp add: parse.simps example_json_def example_inflate_def)


section \<open>The tyre life in the summary\<close>

lemma add_running_length [simp]: "length (add_running s k rows) = length rows"
  by (induction rows arbitrary: k) simp_all

lemma add_running_Stint [simp]: "map m_Stint (add_running s k rows) = map m_Stint rows"
  by (induction rows arbitrary: k) simp_all


lemma stint_step_length [simp]: "length (stint_step st rows) = length rows"
  by (cases st) (simp_all add: stint_step_def)

lemma stint_step_Stint [simp]: "map m_Stint (stint_step st rows) = map m_Stint rows"
  by (cases st) (simp_all add: stint_step_def)





lemma unique_set [simp]: "set (unique xs) = set xs"
  by (simp add: unique_def)

lemma unique_distinct [simp]: "distinct (unique xs)"
  by (simp add: unique_def)











lemma tyre_life_example:
  "map_sum id (map TyreLife) (summary four_laps two_stints) =
     Inr [Some 1, Some 2, Some 1, Some 2]"
  by code_simp

end
